theory Spec2Isabelle
  imports Main "HOL-Library.Word"
begin

section \<open>Data model of runtime/monitor.cc\<close>

text \<open>
  The embedding follows one thread through one call of the monitor interface, on an explicit
  store: objects, threads and monitors are addressed by pointers, and a \<open>NULL\<close> pointer is
  \<open>None\<close>. No other thread runs during the call, so a mutex acquisition succeeds at once
  and a compare-and-swap sees the word that was just read. A call that would park the thread on a
  condition variable ends in \<open>Blocked\<close>; a failed \<open>CHECK\<close> ends in \<open>Aborted\<close>.
  What a parked thread runs once it is woken is given by the functions \<open>Lock_woken\<close>,
  \<open>Wait_woken\<close> and \<open>MonitorEnter_woken\<close>, applied to the runtime it wakes up in.
  \<open>DCHECK\<close>s (debug builds only) and log output are not modelled.
\<close>

type_synonym thread_ptr = nat
type_synonym obj_ptr = nat
type_synonym monitor_ptr = nat
type_synonym method_ptr = nat
type_synonym uint32 = "32 word"
type_synonym uint64 = "64 word"

text \<open>
  Modelled from the spec: \<open>LockWord\<close> (lock_word.h is not part of the sources). The spec gives
  three states: Unlocked, ThinLocked with an owner thread id and a recursion count, FatLocked with
  a monitor. Owner id and count are read as \<open>uint32_t\<close> by monitor.cc. Equality of lock words
  (\<open>lock_word == obj->GetLockWord()\<close>, the comparison of a CAS) is equality of the datatype.
\<close>

datatype LockWord = Unlocked | ThinLocked uint32 uint32 | FatLocked monitor_ptr

text \<open>
  Modelled from the spec: \<open>ThreadList::kInvalidThreadId\<close> (thread_list.h is not part of the
  sources); the spec reserves the thread id zero as "no thread".
\<close>

definition kInvalidThreadId :: uint32 where
  "kInvalidThreadId = 0"

datatype ThreadState = kRunnable | kWaiting | kTimedWaiting | kSleeping | kBlocked

text \<open>The exceptions thrown by monitor.cc, with the message each throw site formats.\<close>

datatype exception_class =
    IllegalMonitorStateException | IllegalArgumentException | InterruptedException

datatype message =
    UnlockOfUnownedMonitor
  | UnlockNowAppearsUnowned
  | UnlockOriginallyBelievedUnowned
  | UnlockOwnerChanged
  | UnlockOfMonitorOwnedBy
  | NotLockedBeforeWait
  | NotLockedBeforeNotify
  | NotLockedBeforeNotifyAll
  | TimeoutArgumentsOutOfRange
  | NoMessage

text \<open>
  The members of \<open>Thread\<close> and \<open>Monitor\<close> that monitor.cc uses, named as in the source
  without the trailing underscore. \<open>tid\<close> is what \<open>GetThreadId()\<close> returns,
  \<open>suspended\<close> what \<open>IsSuspended()\<close> returns, \<open>current_method\<close> what
  \<open>GetCurrentMethod\<close> returns (method and dex pc). \<open>wait_cond_signals\<close> and
  \<open>monitor_contenders_signals\<close> count the calls of \<open>Signal\<close> on \<open>wait_cond_\<close> and
  on \<open>monitor_contenders_\<close>. \<open>lock_count_\<close> is a C++ \<open>int\<close> (\<open>Monitor::Wait\<close>
  saves it in one): a 32-bit word whose value is read with \<open>sint\<close>, so that \<open>++\<close> and
  \<open>--\<close> wrap around as the machine does, and the \<open>uint32_t\<close> thin count is stored in it
  bit for bit.
\<close>

record Thread =
  tid :: uint32
  wait_next :: "thread_ptr option"
  wait_monitor :: "monitor_ptr option"
  interrupted :: bool
  exception :: "(exception_class \<times> message) option"
  state :: ThreadState
  suspended :: bool
  wait_cond_signals :: nat
  current_method :: "method_ptr option \<times> uint32"

record Monitor =
  owner :: "thread_ptr option"
  lock_count :: "32 word"
  object :: obj_ptr
  wait_set :: "thread_ptr option"
  locking_method :: "method_ptr option"
  locking_dex_pc :: uint32
  monitor_contenders_signals :: nat

record contention_event =
  ce_thread :: thread_ptr
  ce_wait_ms :: uint64
  ce_sample_percent :: uint32
  ce_owners_method :: "method_ptr option"
  ce_owners_dex_pc :: uint32

text \<open>
  The store. \<open>lock_word\<close> is the field \<open>mirror::Object::monitor_\<close> of every object;
  \<open>next_monitor\<close> is the address the next \<open>new Monitor\<close> returns; \<open>monitor_list\<close> and
  \<open>allow_new_monitors\<close> are the \<open>MonitorList\<close>; \<open>thread_list\<close> is the runtime's thread
  list; \<open>milli_time\<close> is what \<open>MilliTime()\<close> returns now. \<open>kThinLockMaxCount\<close> (a constant
  of lock_word.h) and \<open>max_spins\<close> (\<open>GetMaxSpinsBeforeThinkLockInflation\<close>) are declared
  outside the sources and are taken as parameters.
\<close>

record runtime =
  lock_word :: "obj_ptr \<Rightarrow> LockWord"
  threads :: "thread_ptr \<Rightarrow> Thread"
  monitors :: "monitor_ptr \<Rightarrow> Monitor"
  next_monitor :: monitor_ptr
  monitor_list :: "monitor_ptr list"
  allow_new_monitors :: bool
  thread_list :: "thread_ptr list"
  lock_profiling_threshold :: uint32
  kThinLockMaxCount :: uint32
  max_spins :: nat
  milli_time :: uint64
  contention_log :: "contention_event list"

definition GetThreadId :: "runtime \<Rightarrow> thread_ptr \<Rightarrow> uint32" where
  "GetThreadId s t = tid (threads s t)"

definition upd_thread :: "thread_ptr \<Rightarrow> (Thread \<Rightarrow> Thread) \<Rightarrow> runtime \<Rightarrow> runtime" where
  "upd_thread t f s = s\<lparr>threads := (threads s)(t := f (threads s t))\<rparr>"

definition upd_monitor :: "monitor_ptr \<Rightarrow> (Monitor \<Rightarrow> Monitor) \<Rightarrow> runtime \<Rightarrow> runtime" where
  "upd_monitor m f s = s\<lparr>monitors := (monitors s)(m := f (monitors s m))\<rparr>"

definition SetLockWord :: "obj_ptr \<Rightarrow> LockWord \<Rightarrow> runtime \<Rightarrow> runtime" where
  "SetLockWord obj w s = s\<lparr>lock_word := (lock_word s)(obj := w)\<rparr>"

text \<open>
  Modelled from the spec: \<open>find_by_id\<close> of the thread registry (thread_list.h is not part of
  the sources): the registered thread with that id, or none.
\<close>

definition FindThreadByThreadId :: "runtime \<Rightarrow> uint32 \<Rightarrow> thread_ptr option" where
  "FindThreadByThreadId s i = find (\<lambda>t. tid (threads s t) = i) (thread_list s)"

section \<open>Throwing\<close>

text \<open>\<open>ThrowIllegalMonitorStateExceptionF\<close>: the exception becomes pending on the current thread.\<close>

definition ThrowNewException ::
  "thread_ptr \<Rightarrow> exception_class \<Rightarrow> message \<Rightarrow> runtime \<Rightarrow> runtime" where
  "ThrowNewException self c msg s = upd_thread self (\<lambda>t. t\<lparr>exception := Some (c, msg)\<rparr>) s"

definition ThrowIllegalMonitorStateExceptionF :: "thread_ptr \<Rightarrow> message \<Rightarrow> runtime \<Rightarrow> runtime" where
  "ThrowIllegalMonitorStateExceptionF self msg s =
     ThrowNewException self IllegalMonitorStateException msg s"

text \<open>
  \<open>Monitor::FailedUnlock\<close>. The thread that throws is \<open>Thread::Current()\<close>, which is the
  \<open>expected_owner\<close> at both call sites.
\<close>

definition FailedUnlock ::
  "obj_ptr \<Rightarrow> thread_ptr \<Rightarrow> thread_ptr option \<Rightarrow> monitor_ptr option \<Rightarrow> runtime \<Rightarrow> runtime" where
  "FailedUnlock ob expected_owner found_owner monitor s =
     (let current_owner = (case monitor of Some m \<Rightarrow> owner (monitors s m) | None \<Rightarrow> None)
      in if current_owner = None then
           (if found_owner = None
            then ThrowIllegalMonitorStateExceptionF expected_owner UnlockOfUnownedMonitor s
            else ThrowIllegalMonitorStateExceptionF expected_owner UnlockNowAppearsUnowned s)
         else
           (if found_owner = None
            then ThrowIllegalMonitorStateExceptionF expected_owner UnlockOriginallyBelievedUnowned s
            else if found_owner \<noteq> current_owner
            then ThrowIllegalMonitorStateExceptionF expected_owner UnlockOwnerChanged s
            else ThrowIllegalMonitorStateExceptionF expected_owner UnlockOfMonitorOwnedBy s))"

section \<open>Monitor::Unlock and Monitor::MonitorExit\<close>

definition Unlock :: "monitor_ptr \<Rightarrow> thread_ptr \<Rightarrow> runtime \<Rightarrow> bool \<times> runtime" where
  "Unlock m self s =
     (let found = owner (monitors s m)
      in if found = Some self then
           (if lock_count (monitors s m) = 0
            then (True, upd_monitor m (\<lambda>mon. mon\<lparr>owner := None, locking_method := None,
                          locking_dex_pc := 0,
                          monitor_contenders_signals := Suc (monitor_contenders_signals mon)\<rparr>) s)
            else (True, upd_monitor m (\<lambda>mon. mon\<lparr>lock_count := lock_count mon - 1\<rparr>) s))
         else (False, FailedUnlock (object (monitors s m)) self found (Some m) s))"

definition MonitorExit :: "thread_ptr \<Rightarrow> obj_ptr \<Rightarrow> runtime \<Rightarrow> bool \<times> runtime" where
  "MonitorExit self obj s =
     (case lock_word s obj of
        Unlocked \<Rightarrow> (False, FailedUnlock obj self None None s)
      | ThinLocked owner_thread_id count \<Rightarrow>
          (let thread_id = GetThreadId s self
           in if owner_thread_id \<noteq> thread_id then
                (let found = FindThreadByThreadId s owner_thread_id
                 in (False, FailedUnlock obj self found None s))
              else if count \<noteq> 0 then
                (let new_count = count - 1
                 in (True, SetLockWord obj (ThinLocked thread_id new_count) s))
              else (True, SetLockWord obj Unlocked s))
      | FatLocked mon \<Rightarrow> Unlock mon self s)"

section \<open>Outcomes of calls that may block or abort\<close>

text \<open>
  What the thread was doing when it parked. \<open>OnMonitorContenders\<close> is
  \<open>monitor_contenders_.Wait\<close> in \<open>Monitor::Lock\<close>, with the locals of the contended
  iteration; \<open>OnWaitCond\<close> is \<open>wait_cond_->Wait\<close> (no timeout) or
  \<open>wait_cond_->TimedWait(ms, ns)\<close> in \<open>Monitor::Wait\<close>, with the values saved for the
  re-acquisition; \<open>OnMonitorAddCondition\<close> is \<open>monitor_add_condition_\<close> in
  \<open>MonitorList::Add\<close>.
\<close>

record contention_locals =
  log_contention :: bool
  wait_start_ms :: uint64
  owners_method :: "method_ptr option"
  owners_dex_pc :: uint32

record wait_locals =
  prev_lock_count :: "32 word"
  saved_method :: "method_ptr option"
  saved_dex_pc :: uint32
  interruptShouldThrow :: bool

datatype block_point =
    OnMonitorContenders monitor_ptr contention_locals
  | OnWaitCond monitor_ptr "(64 word \<times> 32 word) option" wait_locals
  | OnMonitorAddCondition monitor_ptr

datatype 'a outcome = Returned 'a runtime | Blocked block_point runtime | Aborted

section \<open>The wait set: a chain through \<open>Thread::wait_next_\<close>\<close>

text \<open>The \<open>while (t->wait_next_ != NULL)\<close> walk of \<open>AppendToWaitSet\<close>; it has no value on a cyclic chain.\<close>

partial_function (option) last_waiter :: "(thread_ptr \<Rightarrow> Thread) \<Rightarrow> thread_ptr \<Rightarrow> thread_ptr option" where
  "last_waiter th t = (case wait_next (th t) of None \<Rightarrow> Some t | Some n \<Rightarrow> last_waiter th n)"

declare last_waiter.simps [code]

definition AppendToWaitSet :: "monitor_ptr \<Rightarrow> thread_ptr \<Rightarrow> runtime \<Rightarrow> runtime option" where
  "AppendToWaitSet m thread s =
     (case wait_set (monitors s m) of
        None \<Rightarrow> Some (upd_monitor m (\<lambda>mon. mon\<lparr>wait_set := Some thread\<rparr>) s)
      | Some h \<Rightarrow>
          (case last_waiter (threads s) h of
             None \<Rightarrow> None
           | Some t \<Rightarrow> Some (upd_thread t (\<lambda>x. x\<lparr>wait_next := Some thread\<rparr>) s)))"

text \<open>The walk of \<open>RemoveFromWaitSet\<close>, which unlinks \<open>thread\<close> where it finds it.\<close>

partial_function (option) unlink_waiter :: "thread_ptr \<Rightarrow> thread_ptr \<Rightarrow> runtime \<Rightarrow> runtime option" where
  "unlink_waiter thread t s =
     (case wait_next (threads s t) of
        None \<Rightarrow> Some s
      | Some n \<Rightarrow>
          if n = thread then
            Some (upd_thread thread (\<lambda>x. x\<lparr>wait_next := None\<rparr>)
                   (upd_thread t (\<lambda>x. x\<lparr>wait_next := wait_next (threads s thread)\<rparr>) s))
          else unlink_waiter thread n s)"

declare unlink_waiter.simps [code]

definition RemoveFromWaitSet :: "monitor_ptr \<Rightarrow> thread_ptr \<Rightarrow> runtime \<Rightarrow> runtime option" where
  "RemoveFromWaitSet m thread s =
     (case wait_set (monitors s m) of
        None \<Rightarrow> Some s
      | Some h \<Rightarrow>
          if h = thread then
            Some (upd_thread thread (\<lambda>x. x\<lparr>wait_next := None\<rparr>)
                   (upd_monitor m (\<lambda>mon. mon\<lparr>wait_set := wait_next (threads s thread)\<rparr>) s))
          else unlink_waiter thread h s)"

section \<open>Monitor::Lock\<close>

definition GetCurrentMethod :: "runtime \<Rightarrow> thread_ptr \<Rightarrow> method_ptr option \<times> uint32" where
  "GetCurrentMethod s t = current_method (threads s t)"

text \<open>
  One pass of the \<open>while (true)\<close> of \<open>Monitor::Lock\<close>. On contention the thread releases
  \<open>monitor_lock_\<close>, becomes \<open>kBlocked\<close> and takes \<open>monitor_lock_\<close> again; the owner is
  still set then, so it waits on \<open>monitor_contenders_\<close>.
\<close>

definition Lock :: "monitor_ptr \<Rightarrow> thread_ptr \<Rightarrow> runtime \<Rightarrow> unit outcome" where
  "Lock m self s =
     (let mon = monitors s m in
      if owner mon = None then
        (if lock_count mon \<noteq> 0 then Aborted
         else if lock_profiling_threshold s \<noteq> 0 then
           Returned () (upd_monitor m (\<lambda>x. x\<lparr>owner := Some self,
                           locking_method := fst (GetCurrentMethod s self),
                           locking_dex_pc := snd (GetCurrentMethod s self)\<rparr>) s)
         else Returned () (upd_monitor m (\<lambda>x. x\<lparr>owner := Some self\<rparr>) s))
      else if owner mon = Some self then
        Returned () (upd_monitor m (\<lambda>x. x\<lparr>lock_count := lock_count x + 1\<rparr>) s)
      else
        (let log = (lock_profiling_threshold s \<noteq> 0);
             start = (if log then 0 else milli_time s);
             locals = \<lparr>log_contention = log, wait_start_ms = start,
                       owners_method = locking_method mon, owners_dex_pc = locking_dex_pc mon\<rparr>
         in Blocked (OnMonitorContenders m locals) (upd_thread self (\<lambda>t. t\<lparr>state := kBlocked\<rparr>) s)))"

text \<open>
  The sampling computed after \<open>monitor_contenders_.Wait\<close> returns: \<open>wait_ms\<close> is a
  \<open>uint64_t\<close>, \<open>sample_percent\<close> a \<open>uint32_t\<close>, the product and the quotient are
  computed in 64 bits.
\<close>

definition contention_wait_ms :: "contention_locals \<Rightarrow> runtime \<Rightarrow> uint64" where
  "contention_wait_ms locals s = milli_time s - wait_start_ms locals"

definition contention_sample_percent :: "uint64 \<Rightarrow> uint32 \<Rightarrow> uint32" where
  "contention_sample_percent wait_ms threshold =
     (if wait_ms \<ge> ucast threshold then 100 else ucast (100 * wait_ms div ucast threshold))"

text \<open>
  The rest of the contended iteration, run when the thread is woken: \<open>r\<close> is the value
  \<open>rand()\<close> returns (it is not negative). The thread then leaves the \<open>kBlocked\<close> state and
  goes round the loop again.
\<close>

definition Lock_woken ::
  "monitor_ptr \<Rightarrow> thread_ptr \<Rightarrow> contention_locals \<Rightarrow> nat \<Rightarrow> runtime \<Rightarrow> unit outcome" where
  "Lock_woken m self locals r s =
     (let s1 =
        (if log_contention locals then
           (let wait_ms = contention_wait_ms locals s;
                sample_percent = contention_sample_percent wait_ms (lock_profiling_threshold s)
            in if sample_percent \<noteq> 0 \<and> (word_of_nat (r mod 100) :: uint32) < sample_percent
               then s\<lparr>contention_log := contention_log s @
                       [\<lparr>ce_thread = self, ce_wait_ms = wait_ms, ce_sample_percent = sample_percent,
                         ce_owners_method = owners_method locals,
                         ce_owners_dex_pc = owners_dex_pc locals\<rparr>]\<rparr>
               else s)
         else s)
      in Lock m self (upd_thread self (\<lambda>t. t\<lparr>state := kRunnable\<rparr>) s1))"

section \<open>Inflation\<close>

definition CasLockWord :: "obj_ptr \<Rightarrow> LockWord \<Rightarrow> LockWord \<Rightarrow> runtime \<Rightarrow> bool \<times> runtime" where
  "CasLockWord obj expected new s =
     (if lock_word s obj = expected then (True, SetLockWord obj new s) else (False, s))"

text \<open>The constructor, at the address the allocator hands out; \<open>None\<close> when its \<open>CHECK\<close> fails.\<close>

definition new_Monitor ::
  "thread_ptr \<Rightarrow> thread_ptr \<Rightarrow> obj_ptr \<Rightarrow> runtime \<Rightarrow> (monitor_ptr \<times> runtime) option" where
  "new_Monitor self owner0 obj s =
     (if owner0 = self \<or> suspended (threads s owner0) then
        Some (next_monitor s,
              s\<lparr>monitors := (monitors s)(next_monitor s :=
                    \<lparr>owner = Some owner0, lock_count = 0, object = obj, wait_set = None,
                     locking_method = None, locking_dex_pc = 0, monitor_contenders_signals = 0\<rparr>),
                next_monitor := Suc (next_monitor s)\<rparr>)
      else None)"

definition Install :: "monitor_ptr \<Rightarrow> thread_ptr \<Rightarrow> runtime \<Rightarrow> bool outcome" where
  "Install m self s =
     (case owner (monitors s m) of
        None \<Rightarrow> Aborted
      | Some own \<Rightarrow>
          if \<not> (own = self \<or> suspended (threads s own)) then Aborted
          else
            (case lock_word s (object (monitors s m)) of
               Unlocked \<Rightarrow> Aborted
             | FatLocked other \<Rightarrow> Returned False s
             | ThinLocked thin_owner thin_count \<Rightarrow>
                 if GetThreadId s own \<noteq> thin_owner then Aborted
                 else
                   (let s1 = upd_monitor m (\<lambda>x. x\<lparr>lock_count := thin_count\<rparr>) s;
                        (success, s2) = CasLockWord (object (monitors s m))
                                          (ThinLocked thin_owner thin_count) (FatLocked m) s1
                    in if success \<and> lock_profiling_threshold s \<noteq> 0
                       then Returned success
                              (upd_monitor m (\<lambda>x. x\<lparr>locking_method := fst (GetCurrentMethod s own),
                                                     locking_dex_pc := snd (GetCurrentMethod s own)\<rparr>) s2)
                       else Returned success s2)))"

definition MonitorList_Add :: "monitor_ptr \<Rightarrow> runtime \<Rightarrow> unit outcome" where
  "MonitorList_Add m s =
     (if \<not> allow_new_monitors s then Blocked (OnMonitorAddCondition m) s
      else Returned () (s\<lparr>monitor_list := m # monitor_list s\<rparr>))"

text \<open>
  \<open>MonitorList::AllowNewMonitors\<close> and \<open>MonitorList::DisallowNewMonitors\<close>; the broadcast
  of the former wakes the threads parked in \<open>MonitorList::Add\<close>.
\<close>

definition AllowNewMonitors :: "runtime \<Rightarrow> runtime" where
  "AllowNewMonitors s = s\<lparr>allow_new_monitors := True\<rparr>"

definition DisallowNewMonitors :: "runtime \<Rightarrow> runtime" where
  "DisallowNewMonitors s = s\<lparr>allow_new_monitors := False\<rparr>"

definition is_FatLocked :: "LockWord \<Rightarrow> bool" where
  "is_FatLocked w = (case w of FatLocked m \<Rightarrow> True | _ \<Rightarrow> False)"

text \<open>
  The end of \<open>Monitor::Inflate\<close> once \<open>Install\<close> has succeeded: \<open>MonitorList::Add\<close> and
  the final \<open>CHECK_EQ\<close>. It is also what a thread runs when it is woken on
  \<open>monitor_add_condition_\<close>: the \<open>while (!allow_new_monitors_)\<close> test again, then the rest.
\<close>

definition Inflate_register :: "monitor_ptr \<Rightarrow> obj_ptr \<Rightarrow> runtime \<Rightarrow> unit outcome" where
  "Inflate_register m obj s =
     (case MonitorList_Add m s of
        Returned u s1 \<Rightarrow> if is_FatLocked (lock_word s1 obj) then Returned () s1 else Aborted
      | Blocked b s1 \<Rightarrow> Blocked b s1
      | Aborted \<Rightarrow> Aborted)"

text \<open>
  \<open>Monitor::Inflate\<close>. When \<open>Install\<close> fails the \<open>UniquePtr\<close> deletes the monitor, and the
  destructor checks that the object is fat-locked; so does the last line of \<open>Inflate\<close>.
\<close>

definition Inflate :: "thread_ptr \<Rightarrow> thread_ptr \<Rightarrow> obj_ptr \<Rightarrow> runtime \<Rightarrow> unit outcome" where
  "Inflate self owner0 obj s =
     (case new_Monitor self owner0 obj s of
        None \<Rightarrow> Aborted
      | Some (m, s1) \<Rightarrow>
          (case Install m self s1 of
             Aborted \<Rightarrow> Aborted
           | Blocked b s2 \<Rightarrow> Blocked b s2
           | Returned installed s2 \<Rightarrow>
               if installed then Inflate_register m obj s2
               else if is_FatLocked (lock_word s2 obj) then Returned () s2 else Aborted))"

section \<open>Monitor::Wait, Monitor::Notify and Monitor::NotifyAll\<close>

text \<open>
  The end of \<open>Monitor::Wait\<close>, from \<open>TransitionFromSuspendedToRunnable\<close> on: the thread
  takes the monitor again, restores what it saved and leaves the wait set.
\<close>

definition Wait_finish ::
  "monitor_ptr \<Rightarrow> thread_ptr \<Rightarrow> wait_locals \<Rightarrow> bool \<Rightarrow> runtime \<Rightarrow> unit outcome option" where
  "Wait_finish m self locals was_interrupted s =
     (let s1 = upd_thread self (\<lambda>t. t\<lparr>state := kRunnable\<rparr>) s;
          s2 = upd_thread self (\<lambda>t. t\<lparr>wait_monitor := None\<rparr>) s1
      in case Lock m self s2 of
           Aborted \<Rightarrow> Some Aborted
         | Blocked b s3 \<Rightarrow> Some (Blocked b s3)
         | Returned u s3 \<Rightarrow>
             (let s4 = upd_monitor m (\<lambda>x. x\<lparr>owner := Some self,
                           lock_count := prev_lock_count locals,
                           locking_method := saved_method locals,
                           locking_dex_pc := saved_dex_pc locals\<rparr>) s3
              in case RemoveFromWaitSet m self s4 of
                   None \<Rightarrow> None
                 | Some s5 \<Rightarrow>
                     if was_interrupted then
                       (let s6 = upd_thread self (\<lambda>t. t\<lparr>interrupted := False\<rparr>) s5
                        in if interruptShouldThrow locals
                           then Some (Returned () (ThrowNewException self InterruptedException NoMessage s6))
                           else Some (Returned () s6))
                     else Some (Returned () s5)))"

text \<open>What runs when \<open>wait_cond_->Wait\<close> or \<open>TimedWait\<close> returns.\<close>

definition Wait_woken ::
  "monitor_ptr \<Rightarrow> thread_ptr \<Rightarrow> wait_locals \<Rightarrow> runtime \<Rightarrow> unit outcome option" where
  "Wait_woken m self locals s =
     (let was_interrupted = interrupted (threads s self);
          s1 = upd_thread self (\<lambda>t. t\<lparr>interrupted := False\<rparr>) s
      in Wait_finish m self locals was_interrupted s1)"

text \<open>\<open>Monitor::Wait(Thread* self, int64_t ms, int32_t ns, bool interruptShouldThrow, ThreadState why)\<close>.\<close>

definition Wait ::
  "monitor_ptr \<Rightarrow> thread_ptr \<Rightarrow> 64 word \<Rightarrow> 32 word \<Rightarrow> bool \<Rightarrow> ThreadState \<Rightarrow> runtime
     \<Rightarrow> unit outcome option" where
  "Wait m self ms ns ist why s =
     (if owner (monitors s m) \<noteq> Some self then
        Some (Returned () (ThrowIllegalMonitorStateExceptionF self NotLockedBeforeWait s))
      else
        (let why1 = (if why = kTimedWaiting \<and> (ms = 0 \<and> ns = 0) then kWaiting else why)
         in if sint ms < 0 \<or> sint ns < 0 \<or> sint ns > 999999 then
              Some (Returned ()
                     (ThrowNewException self IllegalArgumentException TimeoutArgumentsOutOfRange s))
            else
              (case AppendToWaitSet m self s of
                 None \<Rightarrow> None
               | Some s1 \<Rightarrow>
                   (let mon = monitors s1 m;
                        locals = \<lparr>prev_lock_count = lock_count mon,
                                  saved_method = locking_method mon,
                                  saved_dex_pc = locking_dex_pc mon,
                                  interruptShouldThrow = ist\<rparr>;
                        s2 = upd_monitor m (\<lambda>x. x\<lparr>lock_count := 0, owner := None,
                                  locking_method := None, locking_dex_pc := 0\<rparr>) s1;
                        s3 = upd_thread self (\<lambda>t. t\<lparr>state := why1\<rparr>) s2;
                        s4 = upd_thread self (\<lambda>t. t\<lparr>wait_monitor := Some m\<rparr>) s3;
                        s5 = upd_monitor m (\<lambda>x. x\<lparr>monitor_contenders_signals :=
                                  Suc (monitor_contenders_signals x)\<rparr>) s4
                    in if interrupted (threads s5 self) then Wait_finish m self locals True s5
                       else if why1 = kWaiting then Some (Blocked (OnWaitCond m None locals) s5)
                       else Some (Blocked (OnWaitCond m (Some (ms, ns)) locals) s5)))))"

text \<open>The \<open>while (wait_set_ != NULL)\<close> of \<open>Monitor::Notify\<close>.\<close>

partial_function (option) Notify_loop :: "monitor_ptr \<Rightarrow> runtime \<Rightarrow> runtime option" where
  "Notify_loop m s =
     (case wait_set (monitors s m) of
        None \<Rightarrow> Some s
      | Some thread \<Rightarrow>
          (let s1 = upd_monitor m (\<lambda>x. x\<lparr>wait_set := wait_next (threads s thread)\<rparr>) s;
               s2 = upd_thread thread (\<lambda>t. t\<lparr>wait_next := None\<rparr>) s1
           in if wait_monitor (threads s2 thread) \<noteq> None
              then Some (upd_thread thread
                          (\<lambda>t. t\<lparr>wait_cond_signals := Suc (wait_cond_signals t)\<rparr>) s2)
              else Notify_loop m s2))"

declare Notify_loop.simps [code]

definition Notify :: "monitor_ptr \<Rightarrow> thread_ptr \<Rightarrow> runtime \<Rightarrow> runtime option" where
  "Notify m self s =
     (if owner (monitors s m) \<noteq> Some self
      then Some (ThrowIllegalMonitorStateExceptionF self NotLockedBeforeNotify s)
      else Notify_loop m s)"

text \<open>
  Modelled from the spec: \<open>Thread::Notify\<close> (thread.cc is not part of the sources); the spec's
  notifyAll drains the wait set, "signalling each thread's personal condition variable".
\<close>

definition Thread_Notify :: "thread_ptr \<Rightarrow> runtime \<Rightarrow> runtime" where
  "Thread_Notify thread s =
     upd_thread thread (\<lambda>t. t\<lparr>wait_cond_signals := Suc (wait_cond_signals t)\<rparr>) s"

partial_function (option) NotifyAll_loop :: "monitor_ptr \<Rightarrow> runtime \<Rightarrow> runtime option" where
  "NotifyAll_loop m s =
     (case wait_set (monitors s m) of
        None \<Rightarrow> Some s
      | Some thread \<Rightarrow>
          (let s1 = upd_monitor m (\<lambda>x. x\<lparr>wait_set := wait_next (threads s thread)\<rparr>) s;
               s2 = upd_thread thread (\<lambda>t. t\<lparr>wait_next := None\<rparr>) s1
           in NotifyAll_loop m (Thread_Notify thread s2)))"

declare NotifyAll_loop.simps [code]

definition NotifyAll :: "monitor_ptr \<Rightarrow> thread_ptr \<Rightarrow> runtime \<Rightarrow> runtime option" where
  "NotifyAll m self s =
     (if owner (monitors s m) \<noteq> Some self
      then Some (ThrowIllegalMonitorStateExceptionF self NotLockedBeforeNotifyAll s)
      else NotifyAll_loop m s)"

section \<open>Monitor::MonitorEnter\<close>

text \<open>
  Modelled from the spec: \<open>suspend_by_id\<close> and \<open>resume\<close> of the thread registry
  (thread_list.h is not part of the sources): the thread with that id is suspended and returned,
  or none is.
\<close>

definition SuspendThreadByThreadId :: "uint32 \<Rightarrow> runtime \<Rightarrow> thread_ptr option \<times> runtime" where
  "SuspendThreadByThreadId i s =
     (case FindThreadByThreadId s i of
        None \<Rightarrow> (None, s)
      | Some t \<Rightarrow> (Some t, upd_thread t (\<lambda>x. x\<lparr>suspended := True\<rparr>) s))"

definition Resume :: "thread_ptr \<Rightarrow> runtime \<Rightarrow> runtime" where
  "Resume t s = upd_thread t (\<lambda>x. x\<lparr>suspended := False\<rparr>) s"

text \<open>
  The \<open>while (true)\<close> of \<open>MonitorEnter\<close>, with its local \<open>contention_count\<close>. It has no
  value when the loop never ends.
\<close>

partial_function (option) MonitorEnter_loop ::
  "thread_ptr \<Rightarrow> obj_ptr \<Rightarrow> nat \<Rightarrow> runtime \<Rightarrow> unit outcome option" where
  "MonitorEnter_loop self obj contention_count s =
     (let thread_id = GetThreadId s self in
      case lock_word s obj of
        Unlocked \<Rightarrow>
          (let (success, s1) = CasLockWord obj Unlocked (ThinLocked thread_id 0) s
           in if success then Some (Returned () s1)
              else MonitorEnter_loop self obj contention_count s1)
      | ThinLocked owner_thread_id count \<Rightarrow>
          if owner_thread_id = thread_id then
            (let new_count = count + 1
             in if new_count \<le> kThinLockMaxCount s
                then Some (Returned () (SetLockWord obj (ThinLocked thread_id new_count) s))
                else (case Inflate self self obj s of
                        Returned u s1 \<Rightarrow> MonitorEnter_loop self obj contention_count s1
                      | Blocked b s1 \<Rightarrow> Some (Blocked b s1)
                      | Aborted \<Rightarrow> Some Aborted))
          else
            (let contention_count1 = Suc contention_count
             in if contention_count1 \<le> max_spins s
                then MonitorEnter_loop self obj contention_count1 s
                else
                  (let old_state = state (threads s self);
                       s1 = upd_thread self (\<lambda>t. t\<lparr>state := kBlocked\<rparr>) s
                   in if ThinLocked owner_thread_id count = lock_word s1 obj then
                        (case SuspendThreadByThreadId owner_thread_id s1 of
                           (None, s2) \<Rightarrow>
                             MonitorEnter_loop self obj 0
                               (upd_thread self (\<lambda>t. t\<lparr>state := old_state\<rparr>) s2)
                         | (Some own, s2) \<Rightarrow>
                             (case (case lock_word s2 obj of
                                      ThinLocked o2 c2 \<Rightarrow>
                                        if o2 = owner_thread_id then Inflate self own obj s2
                                        else Returned () s2
                                    | _ \<Rightarrow> Returned () s2) of
                                Returned u s3 \<Rightarrow>
                                  MonitorEnter_loop self obj 0
                                    (upd_thread self (\<lambda>t. t\<lparr>state := old_state\<rparr>) (Resume own s3))
                              | Blocked b s3 \<Rightarrow> Some (Blocked b s3)
                              | Aborted \<Rightarrow> Some Aborted))
                      else MonitorEnter_loop self obj 0
                             (upd_thread self (\<lambda>t. t\<lparr>state := old_state\<rparr>) s1)))
      | FatLocked mon \<Rightarrow> Some (Lock mon self s))"

declare MonitorEnter_loop.simps [code]

definition MonitorEnter :: "thread_ptr \<Rightarrow> obj_ptr \<Rightarrow> runtime \<Rightarrow> unit outcome option" where
  "MonitorEnter self obj s = MonitorEnter_loop self obj 0 s"

text \<open>
  What is left of \<open>MonitorEnter\<close> for a thread that parked in \<open>MonitorList::Add\<close> while
  inflating its own thin lock (\<open>Inflate(self, self, obj)\<close> on the overflow of the recursion
  count), run when it is woken: the rest of \<open>Inflate\<close> for the monitor \<open>m\<close> it installed,
  then \<open>continue\<close> with the local \<open>contention_count\<close> it had.
\<close>

definition MonitorEnter_woken ::
  "thread_ptr \<Rightarrow> obj_ptr \<Rightarrow> nat \<Rightarrow> monitor_ptr \<Rightarrow> runtime \<Rightarrow> unit outcome option" where
  "MonitorEnter_woken self obj contention_count m s =
     (case Inflate_register m obj s of
        Returned u s1 \<Rightarrow> MonitorEnter_loop self obj contention_count s1
      | Blocked b s1 \<Rightarrow> Some (Blocked b s1)
      | Aborted \<Rightarrow> Some Aborted)"

section \<open>Object.wait, Object.notify and Object.notifyAll\<close>

text \<open>\<open>Monitor::Wait(Thread* self, mirror::Object* obj, ...)\<close>, the static overload.\<close>

definition Wait_Object ::
  "thread_ptr \<Rightarrow> obj_ptr \<Rightarrow> 64 word \<Rightarrow> 32 word \<Rightarrow> bool \<Rightarrow> ThreadState \<Rightarrow> runtime
     \<Rightarrow> unit outcome option" where
  "Wait_Object self obj ms ns ist why s =
     (case lock_word s obj of
        Unlocked \<Rightarrow> Some (Returned () (ThrowIllegalMonitorStateExceptionF self NotLockedBeforeWait s))
      | ThinLocked owner_thread_id count \<Rightarrow>
          if owner_thread_id \<noteq> GetThreadId s self then
            Some (Returned () (ThrowIllegalMonitorStateExceptionF self NotLockedBeforeWait s))
          else
            (case Inflate self self obj s of
               Aborted \<Rightarrow> Some Aborted
             | Blocked b s1 \<Rightarrow> Some (Blocked b s1)
             | Returned u s1 \<Rightarrow>
                 (case lock_word s1 obj of
                    FatLocked mon \<Rightarrow> Wait mon self ms ns ist why s1
                  | _ \<Rightarrow> Some Aborted))
      | FatLocked mon \<Rightarrow> Wait mon self ms ns ist why s)"

definition InflateAndNotify :: "thread_ptr \<Rightarrow> obj_ptr \<Rightarrow> bool \<Rightarrow> runtime \<Rightarrow> runtime option" where
  "InflateAndNotify self obj notify_all s =
     (case lock_word s obj of
        Unlocked \<Rightarrow> Some (ThrowIllegalMonitorStateExceptionF self NotLockedBeforeNotify s)
      | ThinLocked owner_thread_id count \<Rightarrow>
          if owner_thread_id \<noteq> GetThreadId s self
          then Some (ThrowIllegalMonitorStateExceptionF self NotLockedBeforeNotify s)
          else Some s
      | FatLocked mon \<Rightarrow> if notify_all then NotifyAll mon self s else Notify mon self s)"

section \<open>Diagnostics\<close>

definition GetOwnerThreadId :: "monitor_ptr \<Rightarrow> runtime \<Rightarrow> uint32" where
  "GetOwnerThreadId m s =
     (case owner (monitors s m) of Some t \<Rightarrow> GetThreadId s t | None \<Rightarrow> kInvalidThreadId)"

definition GetLockOwnerThreadId :: "obj_ptr \<Rightarrow> runtime \<Rightarrow> uint32" where
  "GetLockOwnerThreadId obj s =
     (case lock_word s obj of
        Unlocked \<Rightarrow> kInvalidThreadId
      | ThinLocked owner_thread_id count \<Rightarrow> owner_thread_id
      | FatLocked mon \<Rightarrow> GetOwnerThreadId mon s)"

text \<open>
  \<open>MonitorInfo::MonitorInfo\<close>. \<open>entry_count_\<close> is a \<open>size_t\<close>, read as an unsigned
  integer: for a thin lock it is the \<open>uint32_t\<close> sum \<open>1 + ThinLockCount()\<close>, for a fat lock
  the \<open>int\<close> sum \<open>1 + lock_count_\<close> converted to the unsigned type of the same width. The
  \<open>for\<close> loop over the wait set has no value on a cyclic chain.
\<close>

record MonitorInfo =
  info_owner :: "thread_ptr option"
  entry_count :: int
  waiters :: "thread_ptr list"

partial_function (option) collect_waiters ::
  "(thread_ptr \<Rightarrow> Thread) \<Rightarrow> thread_ptr option \<Rightarrow> thread_ptr list \<Rightarrow> thread_ptr list option" where
  "collect_waiters th waiter acc =
     (case waiter of
        None \<Rightarrow> Some acc
      | Some t \<Rightarrow> collect_waiters th (wait_next (th t)) (acc @ [t]))"

declare collect_waiters.simps [code]

definition MonitorInfo_of :: "obj_ptr \<Rightarrow> runtime \<Rightarrow> MonitorInfo option" where
  "MonitorInfo_of obj s =
     (case lock_word s obj of
        Unlocked \<Rightarrow> Some \<lparr>info_owner = None, entry_count = 0, waiters = []\<rparr>
      | ThinLocked owner_thread_id count \<Rightarrow>
          Some \<lparr>info_owner = FindThreadByThreadId s owner_thread_id,
                entry_count = uint (1 + count), waiters = []\<rparr>
      | FatLocked mon \<Rightarrow>
          (case collect_waiters (threads s) (wait_set (monitors s mon)) [] of
             None \<Rightarrow> None
           | Some ws \<Rightarrow>
               Some \<lparr>info_owner = owner (monitors s mon),
                     entry_count = uint (1 + lock_count (monitors s mon)), waiters = ws\<rparr>))"

section \<open>Notions used in the statements\<close>

text \<open>The class of the exception pending on a thread.\<close>

definition pending :: "runtime \<Rightarrow> thread_ptr \<Rightarrow> exception_class option" where
  "pending s t = map_option fst (exception (threads s t))"

text \<open>
  A thread owns the lock of an object when the lock word is thin with the thread's id, or fat on
  a monitor whose owner is the thread.
\<close>

definition is_owner :: "runtime \<Rightarrow> thread_ptr \<Rightarrow> obj_ptr \<Rightarrow> bool" where
  "is_owner s t obj =
     (case lock_word s obj of
        Unlocked \<Rightarrow> False
      | ThinLocked i n \<Rightarrow> i = GetThreadId s t
      | FatLocked m \<Rightarrow> owner (monitors s m) = Some t)"

text \<open>
  The chain that starts at \<open>p\<close> and follows \<open>wait_next_\<close> visits exactly the threads
  \<open>ws\<close>, in this order, and ends in \<open>NULL\<close>.
\<close>

fun wait_chain :: "(thread_ptr \<Rightarrow> Thread) \<Rightarrow> thread_ptr option \<Rightarrow> thread_ptr list \<Rightarrow> bool" where
  "wait_chain th p [] = (p = None)"
| "wait_chain th p (t # ts) = (p = Some t \<and> wait_chain th (wait_next (th t)) ts)"

text \<open>
  A small runtime for concrete runs: every object is unlocked, the thread at address \<open>t\<close> has
  id \<open>t + 1\<close>, threads 0, 1 and 2 are registered, no monitor is allocated; \<open>mx\<close> is the
  largest thin recursion count and \<open>thr\<close> the lock profiling threshold.
\<close>

definition new_Thread :: "uint32 \<Rightarrow> Thread" where
  "new_Thread i = \<lparr>tid = i, wait_next = None, wait_monitor = None, interrupted = False,
     exception = None, state = kRunnable, suspended = False, wait_cond_signals = 0,
     current_method = (None, 0)\<rparr>"

definition no_Monitor :: Monitor where
  "no_Monitor = \<lparr>owner = None, lock_count = 0, object = 0, wait_set = None,
     locking_method = None, locking_dex_pc = 0, monitor_contenders_signals = 0\<rparr>"

definition example_runtime :: "uint32 \<Rightarrow> uint32 \<Rightarrow> runtime" where
  "example_runtime mx thr =
     \<lparr>lock_word = (\<lambda>obj. Unlocked), threads = (\<lambda>t. new_Thread (word_of_nat (Suc t))),
      monitors = (\<lambda>m. no_Monitor), next_monitor = 0, monitor_list = [],
      allow_new_monitors = True, thread_list = [0, 1, 2], lock_profiling_threshold = thr,
      kThinLockMaxCount = mx, max_spins = 50, milli_time = 0, contention_log = []\<rparr>"


text \<open>
  A runtime in which thread 0 owns monitor 0 of object 7 with recursion count 2, and nobody waits.
\<close>

definition owned_example :: runtime where
  "owned_example = (example_runtime 4095 0)
     \<lparr>lock_word := (\<lambda>obj. Unlocked)(7 := FatLocked 0),
      monitors := (\<lambda>m. no_Monitor)
         (0 := no_Monitor\<lparr>owner := Some 0, lock_count := 2, object := 7\<rparr>)\<rparr>"

text \<open>
  The runtime reached from \<open>example_runtime 0 0\<close> (where the largest thin count is 0) when
  thread 0 enters object 7 twice, which inflates the lock, and then exits twice.
\<close>

definition released_example :: runtime where
  "released_example =
     (case MonitorEnter 0 7 (example_runtime 0 0) of
        Some (Returned u s1) \<Rightarrow>
          (case MonitorEnter 0 7 s1 of
             Some (Returned v s2) \<Rightarrow> snd (MonitorExit 0 7 (snd (MonitorExit 0 7 s2)))
           | _ \<Rightarrow> s1)
      | _ \<Rightarrow> example_runtime 0 0)"

text \<open>\<open>MonitorEnter\<close> called \<open>k\<close> times in a row, as long as the calls return.\<close>

fun enter_times :: "nat \<Rightarrow> thread_ptr \<Rightarrow> obj_ptr \<Rightarrow> runtime \<Rightarrow> unit outcome option" where
  "enter_times 0 T obj s = Some (Returned () s)"
| "enter_times (Suc k) T obj s =
     (case MonitorEnter T obj s of
        Some (Returned u s') \<Rightarrow> enter_times k T obj s'
      | r \<Rightarrow> r)"

text \<open>The runtime a call returned with, if it returned.\<close>

definition returned_state :: "'a outcome \<Rightarrow> runtime option" where
  "returned_state r = (case r of Returned x s \<Rightarrow> Some s | _ \<Rightarrow> None)"

text \<open>
  A runtime with lock profiling threshold 100 ms in which thread 1 owns monitor 0 of object 7
  and the clock reads 1000000 ms.
\<close>

definition contended_example :: runtime where
  "contended_example = (example_runtime 4095 100)
     \<lparr>lock_word := (\<lambda>obj. Unlocked)(7 := FatLocked 0),
      monitors := (\<lambda>m. no_Monitor)(0 := no_Monitor\<lparr>owner := Some 1, object := 7\<rparr>),
      milli_time := 1000000\<rparr>"

text \<open>
  The same runtime 5 ms later: thread 0 is blocked on the monitor, and thread 1 has just
  released it with \<open>Monitor::Unlock\<close>.
\<close>

definition woken_example :: runtime where
  "woken_example =
     (snd (Unlock 0 1 (upd_thread 0 (\<lambda>t. t\<lparr>state := kBlocked\<rparr>) contended_example)))
     \<lparr>milli_time := 1000005\<rparr>"




section \<open>Release of an unlocked or thin-locked object\<close>

lemma lock_word_FailedUnlock [simp]: "lock_word (FailedUnlock ob e f m s) = lock_word s"
  by (simp add: FailedUnlock_def Let_def ThrowIllegalMonitorStateExceptionF_def
      ThrowNewException_def upd_thread_def)

lemma monitors_FailedUnlock [simp]: "monitors (FailedUnlock ob e f m s) = monitors s"
  by (simp add: FailedUnlock_def Let_def ThrowIllegalMonitorStateExceptionF_def
      ThrowNewException_def upd_thread_def)

lemma pending_FailedUnlock [simp]:
  "pending (FailedUnlock ob e f m s) e = Some IllegalMonitorStateException"
  by (simp add: FailedUnlock_def Let_def ThrowIllegalMonitorStateExceptionF_def
      ThrowNewException_def upd_thread_def pending_def)

text \<open>
  C1: \<open>MonitorExit\<close> by thread \<open>T\<close> on object \<open>obj\<close>. On an unlocked word, and on a thin
  word whose owner id is not the id of \<open>T\<close>, it returns false with
  \<open>IllegalMonitorStateException\<close> pending on \<open>T\<close>, and neither the lock words nor the
  monitors change. On \<open>ThinLocked(T, n)\<close> with \<open>n > 0\<close> it returns true and the only change
  is that the word of \<open>obj\<close> becomes \<open>ThinLocked(T, n - 1)\<close>, where \<open>n - 1\<close> does not wrap.
  On \<open>ThinLocked(T, 0)\<close> it returns true and the only change is that the word becomes Unlocked.
\<close>

theorem MonitorExit_unlocked_and_thin:
  "(lock_word s obj = Unlocked \<longrightarrow>
      fst (MonitorExit T obj s) = False
      \<and> pending (snd (MonitorExit T obj s)) T = Some IllegalMonitorStateException
      \<and> lock_word (snd (MonitorExit T obj s)) = lock_word s
      \<and> monitors (snd (MonitorExit T obj s)) = monitors s)
   \<and> (lock_word s obj = ThinLocked i n \<and> i \<noteq> GetThreadId s T \<longrightarrow>
      fst (MonitorExit T obj s) = False
      \<and> pending (snd (MonitorExit T obj s)) T = Some IllegalMonitorStateException
      \<and> lock_word (snd (MonitorExit T obj s)) = lock_word s
      \<and> monitors (snd (MonitorExit T obj s)) = monitors s)
   \<and> (lock_word s obj = ThinLocked (GetThreadId s T) n \<and> 0 < n \<longrightarrow>
      MonitorExit T obj s =
        (True, s\<lparr>lock_word := (lock_word s)(obj := ThinLocked (GetThreadId s T) (n - 1))\<rparr>)
      \<and> unat (n - 1) = unat n - 1)
   \<and> (lock_word s obj = ThinLocked (GetThreadId s T) 0 \<longrightarrow>
      MonitorExit T obj s = (True, s\<lparr>lock_word := (lock_word s)(obj := Unlocked)\<rparr>))"
  by (auto simp: MonitorExit_def Let_def SetLockWord_def unat_minus_one word_neq_0_conv)

theorem MonitorExit_unlocked_and_thin_witness:
  "lock_word (example_runtime 4095 0) 7 = Unlocked
   \<and> fst (MonitorExit 0 7 (example_runtime 4095 0)) = False
   \<and> pending (snd (MonitorExit 0 7 (example_runtime 4095 0))) 0 = Some IllegalMonitorStateException
   \<and> lock_word (SetLockWord 7 (ThinLocked 2 5) (example_runtime 4095 0)) 7 = ThinLocked 2 5
   \<and> 2 \<noteq> GetThreadId (SetLockWord 7 (ThinLocked 2 5) (example_runtime 4095 0)) 0
   \<and> fst (MonitorExit 0 7 (SetLockWord 7 (ThinLocked 2 5) (example_runtime 4095 0))) = False
   \<and> lock_word (snd (MonitorExit 0 7 (SetLockWord 7 (ThinLocked 2 5) (example_runtime 4095 0)))) 7
       = ThinLocked 2 5
   \<and> GetThreadId (SetLockWord 7 (ThinLocked 1 5) (example_runtime 4095 0)) 0 = 1
   \<and> (0 :: uint32) < 5
   \<and> lock_word (snd (MonitorExit 0 7 (SetLockWord 7 (ThinLocked 1 5) (example_runtime 4095 0)))) 7
       = ThinLocked 1 4
   \<and> lock_word (snd (MonitorExit 0 7 (SetLockWord 7 (ThinLocked 1 0) (example_runtime 4095 0)))) 7
       = Unlocked"
proof -
  let ?s0 = "example_runtime 4095 0"
  let ?s1 = "SetLockWord 7 (ThinLocked 2 5) ?s0"
  let ?s2 = "SetLockWord 7 (ThinLocked 1 5) ?s0"
  let ?s3 = "SetLockWord 7 (ThinLocked 1 0) ?s0"
  have ids: "GetThreadId ?s1 0 = 1" "GetThreadId ?s2 0 = 1" "GetThreadId ?s3 0 = 1"
    by (simp_all add: GetThreadId_def SetLockWord_def example_runtime_def new_Thread_def)
  have w0: "lock_word ?s0 7 = Unlocked"
    by (simp add: example_runtime_def)
  have w1: "lock_word ?s1 7 = ThinLocked 2 5 \<and> 2 \<noteq> GetThreadId ?s1 0"
    by (simp add: ids) (simp add: SetLockWord_def)
  have w2: "lock_word ?s2 7 = ThinLocked (GetThreadId ?s2 0) 5 \<and> (0 :: uint32) < 5"
    by (simp add: ids) (simp add: SetLockWord_def)
  have w3: "lock_word ?s3 7 = ThinLocked (GetThreadId ?s3 0) 0"
    by (simp add: ids) (simp add: SetLockWord_def)
  note main = MonitorExit_unlocked_and_thin
  from main [of ?s0 7 0] w0
  have c0: "fst (MonitorExit 0 7 ?s0) = False
      \<and> pending (snd (MonitorExit 0 7 ?s0)) 0 = Some IllegalMonitorStateException"
    by blast
  from main [of ?s1 7 0 2 5] w1
  have c1: "fst (MonitorExit 0 7 ?s1) = False
      \<and> lock_word (snd (MonitorExit 0 7 ?s1)) = lock_word ?s1"
    by blast
  from main [of ?s2 7 0 _ 5] w2
  have c2: "MonitorExit 0 7 ?s2 =
      (True, ?s2\<lparr>lock_word := (lock_word ?s2)(7 := ThinLocked (GetThreadId ?s2 0) (5 - 1))\<rparr>)"
    by blast
  from main [of ?s3 7 0] w3
  have c3: "MonitorExit 0 7 ?s3 = (True, ?s3\<lparr>lock_word := (lock_word ?s3)(7 := Unlocked)\<rparr>)"
    by blast
  show ?thesis
    using w0 w1 c0 c1 by (simp add: c2 c3 ids)
qed

section \<open>Recursive acquisition of a thin lock\<close>

lemma word_inc_unat: "(n::uint32) < mx \<Longrightarrow> unat (n + 1) = unat n + 1"
  by unat_arith

lemma word_inc_not_le: "(n::uint32) + 1 \<noteq> 0 \<Longrightarrow> \<not> (n + 1 \<le> n)"
  by (metis inc_less_eq_self_iff_eq add.commute add.right_neutral add_uminus_conv_diff
      diff_add_cancel)

lemma word_inc_uint: "(n::uint32) + 1 \<noteq> 0 \<Longrightarrow> uint (n + 1) = uint n + 1"
  by uint_arith

lemmas inflate_defs = Inflate_def new_Monitor_def Install_def CasLockWord_def SetLockWord_def
  MonitorList_Add_def is_FatLocked_def upd_monitor_def GetThreadId_def GetCurrentMethod_def

lemma MonitorEnter_Unlocked:
  assumes "lock_word s obj = Unlocked"
  shows "MonitorEnter T obj s =
    Some (Returned () (SetLockWord obj (ThinLocked (GetThreadId s T) 0) s))"
  using assms
  by (simp add: MonitorEnter_def MonitorEnter_loop.simps [of T obj 0 s] Let_def CasLockWord_def)

lemma MonitorEnter_thin_below_max:
  assumes "lock_word s obj = ThinLocked (GetThreadId s T) n" and "n < kThinLockMaxCount s"
  shows "MonitorEnter T obj s =
    Some (Returned () (SetLockWord obj (ThinLocked (GetThreadId s T) (n + 1)) s))"
proof -
  from assms have "n + 1 \<le> kThinLockMaxCount s" by (simp add: inc_le)
  with assms show ?thesis
    by (simp add: MonitorEnter_def MonitorEnter_loop.simps [of T obj 0 s] Let_def)
qed

lemma word_small_uint: "(n::32 word) < 0x7FFFFFFF \<Longrightarrow> uint n < 2147483647"
  by (simp add: word_less_def)

lemma word_small_inc_uint:
  assumes "(n::32 word) < 0x7FFFFFFF" shows "uint (n + 1) = uint n + 1"
proof -
  from assms have "uint n < 2147483647" by (rule word_small_uint)
  moreover have "0 \<le> uint n" by simp
  ultimately show ?thesis by (simp add: uint_word_ariths take_bit_int_eq_self)
qed

lemma word_sint_uint:
  assumes "uint (n::32 word) < 2147483648" shows "sint n = uint n"
proof -
  have "0 \<le> uint n" by simp
  moreover have "- (2 ^ 31) \<le> (0 :: int)" by simp
  ultimately have "- (2 ^ 31) \<le> uint n" by (rule order_trans [rotated])
  moreover from assms have "uint n < 2 ^ 31" by simp
  ultimately have "signed_take_bit 31 (uint n) = uint n"
    by (rule signed_take_bit_int_eq_self)
  then show ?thesis by (simp add: sint_uint)
qed

lemma word_small_inc_sint:
  assumes "(n::32 word) < 0x7FFFFFFF" shows "sint (n + 1) = uint n + 1"
proof -
  from assms have "uint n < 2147483647" by (rule word_small_uint)
  with word_small_inc_uint [OF assms] have "uint (n + 1) < 2147483648" by simp
  then have "sint (n + 1) = uint (n + 1)" by (rule word_sint_uint)
  with word_small_inc_uint [OF assms] show ?thesis by simp
qed

lemma word_small_inc_neq:
  assumes "(n::32 word) < 0x7FFFFFFF" shows "n + 1 \<noteq> 0"
proof
  note a = assms
  assume "n + 1 = 0"
  then have "uint (n + 1) = 0" by simp
  with word_small_inc_uint [OF a] have "uint n = - 1" by simp
  with uint_ge_0 [of n] show False by simp
qed

lemma Inflate_by_thin_owner:
  assumes "lock_word s obj = ThinLocked (GetThreadId s T) n"
  shows "\<exists>s'. Inflate T T obj s =
            (if allow_new_monitors s then Returned () s'
             else Blocked (OnMonitorAddCondition (next_monitor s)) s')
          \<and> lock_word s' obj = FatLocked (next_monitor s)
          \<and> owner (monitors s' (next_monitor s)) = Some T
          \<and> lock_count (monitors s' (next_monitor s)) = n
          \<and> wait_set (monitors s' (next_monitor s)) = None
          \<and> threads s' = threads s"
  using assms by (simp add: inflate_defs Inflate_register_def Let_def)

lemma MonitorEnter_loop_fat_owner:
  assumes "lock_word s obj = FatLocked m" and "owner (monitors s m) = Some T"
  shows "MonitorEnter_loop T obj cc s =
    Some (Returned () (upd_monitor m (\<lambda>x. x\<lparr>lock_count := lock_count x + 1\<rparr>) s))"
proof -
  from assms have "Lock m T s =
      Returned () (upd_monitor m (\<lambda>x. x\<lparr>lock_count := lock_count x + 1\<rparr>) s)"
    by (simp add: Lock_def Let_def)
  with assms show ?thesis
    by (simp add: MonitorEnter_loop.simps [of T obj cc s] Let_def)
qed

lemma MonitorEnter_woken_fat_owner:
  assumes "allow_new_monitors s" and "lock_word s obj = FatLocked m"
    and "owner (monitors s m) = Some T"
  shows "\<exists>s'. MonitorEnter_woken T obj cc m s = Some (Returned () s')
      \<and> lock_word s' obj = FatLocked m \<and> owner (monitors s' m) = Some T
      \<and> lock_count (monitors s' m) = lock_count (monitors s m) + 1"
proof -
  let ?s1 = "s\<lparr>monitor_list := m # monitor_list s\<rparr>"
  from assms have r: "Inflate_register m obj s = Returned () ?s1"
    by (simp add: Inflate_register_def MonitorList_Add_def is_FatLocked_def)
  from assms have "MonitorEnter_loop T obj cc ?s1 =
      Some (Returned () (upd_monitor m (\<lambda>x. x\<lparr>lock_count := lock_count x + 1\<rparr>) ?s1))"
    by (intro MonitorEnter_loop_fat_owner) simp_all
  with r assms show ?thesis
    by (simp add: MonitorEnter_woken_def upd_monitor_def)
qed

text \<open>
  C2: \<open>MonitorEnter\<close> by the thread \<open>T\<close> that holds the thin lock of \<open>obj\<close> with count
  \<open>n\<close>. Below the maximum it returns, and the only change is that the lock word becomes
  \<open>ThinLocked(T, n + 1)\<close>, where \<open>n + 1\<close> does not wrap. At the maximum the lock is inflated
  to a new monitor owned by \<open>T\<close>, and when \<open>MonitorEnter\<close> returns, the recursion count of
  the monitor, read as the \<open>int\<close> it is, is the maximum plus one. The maximum is below
  \<open>INT_MAX\<close> (it is a field of the lock word), so that the \<open>int\<close> holds it and its
  successor. \<open>MonitorEnter\<close> returns at once when new monitors are allowed. When they are not,
  the thread parks in \<open>MonitorList::Add\<close> with the lock word already fat, \<open>T\<close> the owner and
  the thin count copied; woken in any runtime where new monitors are allowed and the object,
  the owner and the count of the monitor are as the thread left them, it returns with the same
  result.
\<close>

theorem MonitorEnter_recursive:
  "(lock_word s obj = ThinLocked (GetThreadId s T) n \<and> n < kThinLockMaxCount s \<longrightarrow>
      MonitorEnter T obj s =
        Some (Returned () (s\<lparr>lock_word := (lock_word s)(obj := ThinLocked (GetThreadId s T) (n + 1))\<rparr>))
      \<and> unat (n + 1) = unat n + 1)
   \<and> (lock_word s obj = ThinLocked (GetThreadId s T) n \<and> n = kThinLockMaxCount s
       \<and> kThinLockMaxCount s < 0x7FFFFFFF \<longrightarrow>
      (allow_new_monitors s \<longrightarrow>
         (\<exists>s'. MonitorEnter T obj s = Some (Returned () s')
            \<and> lock_word s' obj = FatLocked (next_monitor s)
            \<and> owner (monitors s' (next_monitor s)) = Some T
            \<and> sint (lock_count (monitors s' (next_monitor s))) = uint (kThinLockMaxCount s) + 1))
      \<and> (\<not> allow_new_monitors s \<longrightarrow>
         (\<exists>s1. MonitorEnter T obj s = Some (Blocked (OnMonitorAddCondition (next_monitor s)) s1)
            \<and> lock_word s1 obj = FatLocked (next_monitor s)
            \<and> owner (monitors s1 (next_monitor s)) = Some T
            \<and> lock_count (monitors s1 (next_monitor s)) = kThinLockMaxCount s))
      \<and> (\<forall>cc s2. allow_new_monitors s2 \<and> lock_word s2 obj = FatLocked (next_monitor s)
            \<and> owner (monitors s2 (next_monitor s)) = Some T
            \<and> lock_count (monitors s2 (next_monitor s)) = kThinLockMaxCount s \<longrightarrow>
         (\<exists>s'. MonitorEnter_woken T obj cc (next_monitor s) s2 = Some (Returned () s')
            \<and> lock_word s' obj = FatLocked (next_monitor s)
            \<and> owner (monitors s' (next_monitor s)) = Some T
            \<and> sint (lock_count (monitors s' (next_monitor s))) = uint (kThinLockMaxCount s) + 1)))"
proof (intro conjI impI allI)
  assume h: "lock_word s obj = ThinLocked (GetThreadId s T) n \<and> n < kThinLockMaxCount s"
  then show "MonitorEnter T obj s =
        Some (Returned () (s\<lparr>lock_word := (lock_word s)(obj := ThinLocked (GetThreadId s T) (n + 1))\<rparr>))"
    by (simp add: MonitorEnter_thin_below_max SetLockWord_def)
  from h have "n < kThinLockMaxCount s" by simp
  then show "unat (n + 1) = unat n + 1" by (rule word_inc_unat)
next
  assume h: "lock_word s obj = ThinLocked (GetThreadId s T) n \<and> n = kThinLockMaxCount s
       \<and> kThinLockMaxCount s < 0x7FFFFFFF"
    and a: "allow_new_monitors s"
  let ?m = "next_monitor s"
  from h have "n + 1 \<noteq> 0" using word_small_inc_neq by blast
  with h have nle: "\<not> (n + 1 \<le> kThinLockMaxCount s)" using word_inc_not_le by blast
  from h a Inflate_by_thin_owner [of s obj T n] obtain s1 where
    s1: "Inflate T T obj s = Returned () s1"
      "lock_word s1 obj = FatLocked ?m" "owner (monitors s1 ?m) = Some T"
      "lock_count (monitors s1 ?m) = n" by auto
  let ?s2 = "upd_monitor ?m (\<lambda>x. x\<lparr>lock_count := lock_count x + 1\<rparr>) s1"
  from s1 have "MonitorEnter_loop T obj 0 s1 = Some (Returned () ?s2)"
    by (simp add: MonitorEnter_loop_fat_owner)
  with h nle s1 have "MonitorEnter T obj s = Some (Returned () ?s2)"
    by (simp add: MonitorEnter_def MonitorEnter_loop.simps [of T obj 0 s] Let_def)
  moreover from h have "sint (n + 1) = uint (kThinLockMaxCount s) + 1"
    using word_small_inc_sint [of n] by simp
  with s1 have "lock_word ?s2 obj = FatLocked ?m \<and> owner (monitors ?s2 ?m) = Some T
        \<and> sint (lock_count (monitors ?s2 ?m)) = uint (kThinLockMaxCount s) + 1"
    by (simp add: upd_monitor_def)
  ultimately show "\<exists>s'. MonitorEnter T obj s = Some (Returned () s')
            \<and> lock_word s' obj = FatLocked (next_monitor s)
            \<and> owner (monitors s' (next_monitor s)) = Some T
            \<and> sint (lock_count (monitors s' (next_monitor s))) = uint (kThinLockMaxCount s) + 1"
    by blast
next
  assume h: "lock_word s obj = ThinLocked (GetThreadId s T) n \<and> n = kThinLockMaxCount s
       \<and> kThinLockMaxCount s < 0x7FFFFFFF"
    and a: "\<not> allow_new_monitors s"
  let ?m = "next_monitor s"
  from h have "n + 1 \<noteq> 0" using word_small_inc_neq by blast
  with h have nle: "\<not> (n + 1 \<le> kThinLockMaxCount s)" using word_inc_not_le by blast
  from h a Inflate_by_thin_owner [of s obj T n] obtain s1 where
    s1: "Inflate T T obj s = Blocked (OnMonitorAddCondition ?m) s1"
      "lock_word s1 obj = FatLocked ?m" "owner (monitors s1 ?m) = Some T"
      "lock_count (monitors s1 ?m) = n" by auto
  with h nle have "MonitorEnter T obj s = Some (Blocked (OnMonitorAddCondition ?m) s1)"
    by (simp add: MonitorEnter_def MonitorEnter_loop.simps [of T obj 0 s] Let_def)
  with s1 h show "\<exists>s1. MonitorEnter T obj s = Some (Blocked (OnMonitorAddCondition (next_monitor s)) s1)
            \<and> lock_word s1 obj = FatLocked (next_monitor s)
            \<and> owner (monitors s1 (next_monitor s)) = Some T
            \<and> lock_count (monitors s1 (next_monitor s)) = kThinLockMaxCount s"
    by blast
next
  fix cc :: nat and s2 :: runtime
  assume h: "lock_word s obj = ThinLocked (GetThreadId s T) n \<and> n = kThinLockMaxCount s
       \<and> kThinLockMaxCount s < 0x7FFFFFFF"
    and w: "allow_new_monitors s2 \<and> lock_word s2 obj = FatLocked (next_monitor s)
            \<and> owner (monitors s2 (next_monitor s)) = Some T
            \<and> lock_count (monitors s2 (next_monitor s)) = kThinLockMaxCount s"
  let ?m = "next_monitor s"
  from w MonitorEnter_woken_fat_owner [of s2 obj ?m T cc] obtain s' where
    s': "MonitorEnter_woken T obj cc ?m s2 = Some (Returned () s')"
      "lock_word s' obj = FatLocked ?m" "owner (monitors s' ?m) = Some T"
      "lock_count (monitors s' ?m) = lock_count (monitors s2 ?m) + 1" by blast
  from h have "sint (kThinLockMaxCount s + 1) = uint (kThinLockMaxCount s) + 1"
    using word_small_inc_sint [of "kThinLockMaxCount s"] by simp
  with s' w show "\<exists>s'. MonitorEnter_woken T obj cc (next_monitor s) s2 = Some (Returned () s')
            \<and> lock_word s' obj = FatLocked (next_monitor s)
            \<and> owner (monitors s' (next_monitor s)) = Some T
            \<and> sint (lock_count (monitors s' (next_monitor s))) = uint (kThinLockMaxCount s) + 1"
    by auto
qed

theorem MonitorEnter_recursive_witness:
  "lock_word (SetLockWord 7 (ThinLocked 1 1) (example_runtime 2 0)) 7
     = ThinLocked (GetThreadId (SetLockWord 7 (ThinLocked 1 1) (example_runtime 2 0)) 0) 1
   \<and> 1 < kThinLockMaxCount (SetLockWord 7 (ThinLocked 1 1) (example_runtime 2 0))
   \<and> MonitorEnter 0 7 (SetLockWord 7 (ThinLocked 1 1) (example_runtime 2 0))
       = Some (Returned () (SetLockWord 7 (ThinLocked 1 2) (example_runtime 2 0)))
   \<and> lock_word (SetLockWord 7 (ThinLocked 1 2) (example_runtime 2 0)) 7
     = ThinLocked (GetThreadId (SetLockWord 7 (ThinLocked 1 2) (example_runtime 2 0)) 0) 2
   \<and> 2 = kThinLockMaxCount (SetLockWord 7 (ThinLocked 1 2) (example_runtime 2 0))
   \<and> kThinLockMaxCount (SetLockWord 7 (ThinLocked 1 2) (example_runtime 2 0)) < 0x7FFFFFFF
   \<and> allow_new_monitors (SetLockWord 7 (ThinLocked 1 2) (example_runtime 2 0))
   \<and> (\<exists>s'. MonitorEnter 0 7 (SetLockWord 7 (ThinLocked 1 2) (example_runtime 2 0))
             = Some (Returned () s')
          \<and> lock_word s' 7 = FatLocked 0
          \<and> owner (monitors s' 0) = Some 0
          \<and> sint (lock_count (monitors s' 0)) = 3)
   \<and> \<not> allow_new_monitors
         (DisallowNewMonitors (SetLockWord 7 (ThinLocked 1 2) (example_runtime 2 0)))
   \<and> (\<exists>s1. MonitorEnter 0 7
               (DisallowNewMonitors (SetLockWord 7 (ThinLocked 1 2) (example_runtime 2 0)))
             = Some (Blocked (OnMonitorAddCondition 0) s1)
          \<and> lock_word s1 7 = FatLocked 0
          \<and> owner (monitors s1 0) = Some 0
          \<and> lock_count (monitors s1 0) = 2
          \<and> allow_new_monitors (AllowNewMonitors s1)
          \<and> (\<exists>s'. MonitorEnter_woken 0 7 0 0 (AllowNewMonitors s1) = Some (Returned () s')
                \<and> lock_word s' 7 = FatLocked 0
                \<and> owner (monitors s' 0) = Some 0
                \<and> sint (lock_count (monitors s' 0)) = 3))"
proof -
  let ?s1 = "SetLockWord 7 (ThinLocked 1 1) (example_runtime 2 0)"
  let ?s2 = "SetLockWord 7 (ThinLocked 1 2) (example_runtime 2 0)"
  let ?s3 = "DisallowNewMonitors ?s2"
  have h1: "lock_word ?s1 7 = ThinLocked (GetThreadId ?s1 0) 1 \<and> 1 < kThinLockMaxCount ?s1"
    by (simp add: SetLockWord_def GetThreadId_def example_runtime_def new_Thread_def)
  have h2: "lock_word ?s2 7 = ThinLocked (GetThreadId ?s2 0) 2 \<and> 2 = kThinLockMaxCount ?s2
      \<and> kThinLockMaxCount ?s2 < 0x7FFFFFFF"
    by (simp add: SetLockWord_def GetThreadId_def example_runtime_def new_Thread_def)
  have h3: "lock_word ?s3 7 = ThinLocked (GetThreadId ?s3 0) 2 \<and> 2 = kThinLockMaxCount ?s3
      \<and> kThinLockMaxCount ?s3 < 0x7FFFFFFF"
    by (simp add: DisallowNewMonitors_def SetLockWord_def GetThreadId_def example_runtime_def
        new_Thread_def)
  have v: "allow_new_monitors ?s2" "next_monitor ?s2 = 0" "uint (kThinLockMaxCount ?s2) + 1 = 3"
    "GetThreadId ?s1 0 = 1" "\<not> allow_new_monitors ?s3" "next_monitor ?s3 = 0"
    "uint (kThinLockMaxCount ?s3) + 1 = 3" "kThinLockMaxCount ?s3 = 2"
    by (simp_all add: DisallowNewMonitors_def SetLockWord_def GetThreadId_def example_runtime_def
        new_Thread_def)
  note main = MonitorEnter_recursive
  from main [of ?s1 7 0 1] h1
  have c1: "MonitorEnter 0 7 ?s1 =
      Some (Returned () (?s1\<lparr>lock_word := (lock_word ?s1)(7 := ThinLocked (GetThreadId ?s1 0) (1 + 1))\<rparr>))"
    by blast
  have e: "?s1\<lparr>lock_word := (lock_word ?s1)(7 := ThinLocked (GetThreadId ?s1 0) (1 + 1))\<rparr> = ?s2"
    by (simp add: v) (simp add: SetLockWord_def)
  from c1 have c1': "MonitorEnter 0 7 ?s1 = Some (Returned () ?s2)"
    by (simp only: e)
  from main [of ?s2 7 0 2] h2 v(1)
  have "\<exists>s'. MonitorEnter 0 7 ?s2 = Some (Returned () s')
          \<and> lock_word s' 7 = FatLocked (next_monitor ?s2)
          \<and> owner (monitors s' (next_monitor ?s2)) = Some 0
          \<and> sint (lock_count (monitors s' (next_monitor ?s2))) = uint (kThinLockMaxCount ?s2) + 1"
    by blast
  then have c2: "\<exists>s'. MonitorEnter 0 7 ?s2 = Some (Returned () s')
          \<and> lock_word s' 7 = FatLocked 0 \<and> owner (monitors s' 0) = Some 0
          \<and> sint (lock_count (monitors s' 0)) = 3"
    by (simp add: v)
  from main [of ?s3 7 0 2] h3 v(5)
  have "\<exists>s1. MonitorEnter 0 7 ?s3 = Some (Blocked (OnMonitorAddCondition (next_monitor ?s3)) s1)
            \<and> lock_word s1 7 = FatLocked (next_monitor ?s3)
            \<and> owner (monitors s1 (next_monitor ?s3)) = Some 0
            \<and> lock_count (monitors s1 (next_monitor ?s3)) = kThinLockMaxCount ?s3"
    by blast
  then obtain s1 where s1: "MonitorEnter 0 7 ?s3 = Some (Blocked (OnMonitorAddCondition 0) s1)"
      "lock_word s1 7 = FatLocked 0" "owner (monitors s1 0) = Some 0"
      "lock_count (monitors s1 0) = 2"
    by (auto simp: v)
  then have w: "allow_new_monitors (AllowNewMonitors s1)
      \<and> lock_word (AllowNewMonitors s1) 7 = FatLocked (next_monitor ?s3)
      \<and> owner (monitors (AllowNewMonitors s1) (next_monitor ?s3)) = Some 0
      \<and> lock_count (monitors (AllowNewMonitors s1) (next_monitor ?s3)) = kThinLockMaxCount ?s3"
    by (simp add: v AllowNewMonitors_def)
  from main [of ?s3 7 0 2] h3 w
  have "\<exists>s'. MonitorEnter_woken 0 7 0 (next_monitor ?s3) (AllowNewMonitors s1) = Some (Returned () s')
            \<and> lock_word s' 7 = FatLocked (next_monitor ?s3)
            \<and> owner (monitors s' (next_monitor ?s3)) = Some 0
            \<and> sint (lock_count (monitors s' (next_monitor ?s3))) = uint (kThinLockMaxCount ?s3) + 1"
    by blast
  then have c4: "\<exists>s'. MonitorEnter_woken 0 7 0 0 (AllowNewMonitors s1) = Some (Returned () s')
            \<and> lock_word s' 7 = FatLocked 0 \<and> owner (monitors s' 0) = Some 0
            \<and> sint (lock_count (monitors s' 0)) = 3"
    by (simp add: v)
  from s1 w c4 have c3: "\<exists>s1. MonitorEnter 0 7 ?s3 = Some (Blocked (OnMonitorAddCondition 0) s1)
          \<and> lock_word s1 7 = FatLocked 0
          \<and> owner (monitors s1 0) = Some 0
          \<and> lock_count (monitors s1 0) = 2
          \<and> allow_new_monitors (AllowNewMonitors s1)
          \<and> (\<exists>s'. MonitorEnter_woken 0 7 0 0 (AllowNewMonitors s1) = Some (Returned () s')
                \<and> lock_word s' 7 = FatLocked 0
                \<and> owner (monitors s' 0) = Some 0
                \<and> sint (lock_count (monitors s' 0)) = 3)"
    by blast
  from h1 h2 v(1) v(5) c1' c2 c3 show ?thesis by blast
qed

section \<open>The wait set as a list\<close>


lemma wait_chain_unique: "wait_chain th p xs \<Longrightarrow> wait_chain th p ys \<Longrightarrow> xs = ys"
proof (induction xs arbitrary: p ys)
  case Nil
  then show ?case by (cases ys) auto
next
  case (Cons x xs)
  then show ?case by (cases ys) auto
qed

lemma wait_chain_suffix:
  "wait_chain th p (xs @ y # ys) \<Longrightarrow> wait_chain th (Some y) (y # ys)"
  by (induction xs arbitrary: p) auto

lemma wait_chain_distinct: "wait_chain th p ws \<Longrightarrow> distinct ws"
proof (induction ws arbitrary: p)
  case Nil
  then show ?case by simp
next
  case (Cons t ts)
  have "t \<notin> set ts"
  proof
    assume "t \<in> set ts"
    then obtain xs ys where ts: "ts = xs @ t # ys" by (auto simp: in_set_conv_decomp)
    from Cons.prems have c: "wait_chain th (wait_next (th t)) ts" by simp
    with ts have "wait_chain th (Some t) (t # ys)" using wait_chain_suffix by blast
    then have "wait_chain th (wait_next (th t)) ys" by simp
    with c have "ts = ys" by (rule wait_chain_unique)
    with ts show False by simp
  qed
  moreover from Cons.prems Cons.IH [of "wait_next (th t)"] have "distinct ts" by simp
  ultimately show ?case by simp
qed

lemma last_waiter_chain:
  "wait_chain th (Some h) ws \<Longrightarrow> last_waiter th h = Some (last ws)"
proof (induction ws arbitrary: h)
  case Nil
  then show ?case by simp
next
  case (Cons t ts)
  then have ht: "h = t" and c: "wait_chain th (wait_next (th t)) ts" by simp_all
  show ?case
  proof (cases ts)
    case Nil
    with c have "wait_next (th t) = None" by simp
    then have "last_waiter th t = Some t" by (subst last_waiter.simps) simp
    with ht Nil show ?thesis by simp
  next
    case (Cons a as)
    with c have n: "wait_next (th t) = Some a" by simp
    from c Cons Cons.IH [of a] have "last_waiter th a = Some (last ts)" by simp
    with n have "last_waiter th t = Some (last ts)" by (subst last_waiter.simps) simp
    with ht Cons show ?thesis by simp
  qed
qed

lemma wait_chain_snoc:
  assumes "wait_chain th p ws" and "ws \<noteq> []" and "t \<notin> set ws" and "wait_next (th t) = None"
  shows "wait_chain (th(last ws := (th (last ws))\<lparr>wait_next := Some t\<rparr>)) p (ws @ [t])"
  using assms
proof (induction ws arbitrary: p)
  case Nil
  then show ?case by simp
next
  case (Cons a as)
  from Cons.prems(1) have d: "distinct (a # as)" by (rule wait_chain_distinct)
  show ?case
  proof (cases as)
    case Nil
    with Cons.prems show ?thesis by auto
  next
    case (Cons b bs)
    with Cons.prems Cons.IH [of "wait_next (th a)"] d show ?thesis by auto
  qed
qed

lemma AppendToWaitSet_chain:
  assumes "wait_chain (threads s) (wait_set (monitors s m)) ws"
    and "t \<notin> set ws" and "wait_next (threads s t) = None"
  shows "\<exists>s'. AppendToWaitSet m t s = Some s'
      \<and> wait_chain (threads s') (wait_set (monitors s' m)) (ws @ [t])"
proof (cases ws)
  case Nil
  with assms show ?thesis
    by (simp add: AppendToWaitSet_def upd_monitor_def)
next
  case (Cons h hs)
  with assms have h: "wait_set (monitors s m) = Some h" by simp
  with assms(1) have "last_waiter (threads s) h = Some (last ws)"
    by (simp add: last_waiter_chain)
  moreover from assms Cons
  have "wait_chain ((threads s)(last ws := (threads s (last ws))\<lparr>wait_next := Some t\<rparr>))
          (wait_set (monitors s m)) (ws @ [t])"
    by (intro wait_chain_snoc) auto
  ultimately show ?thesis using h
    by (simp add: AppendToWaitSet_def upd_thread_def)
qed






section \<open>Argument checks of Monitor::Wait\<close>

lemmas throw_defs = ThrowIllegalMonitorStateExceptionF_def ThrowNewException_def upd_thread_def

lemma Wait_bad_arguments:
  assumes "owner (monitors s m) = Some T" and "sint ms < 0 \<or> sint ns < 0 \<or> 999999 < sint ns"
  shows "Wait m T ms ns ist why s =
     Some (Returned () (ThrowNewException T IllegalArgumentException TimeoutArgumentsOutOfRange s))"
  using assms by (simp add: Wait_def)

lemma Wait_zero_timeout: "Wait m T 0 0 ist kTimedWaiting s = Wait m T 0 0 ist kWaiting s"
  by (simp add: Wait_def)

lemma AppendToWaitSet_interrupted:
  "AppendToWaitSet m t s = Some s' \<Longrightarrow> interrupted (threads s' x) = interrupted (threads s x)"
  by (auto simp: AppendToWaitSet_def upd_monitor_def upd_thread_def split: option.splits if_splits)

lemma Wait_untimed_parks:
  assumes "owner (monitors s m) = Some T"
    and "wait_chain (threads s) (wait_set (monitors s m)) ws"
    and "T \<notin> set ws" and "wait_next (threads s T) = None" and "\<not> interrupted (threads s T)"
  shows "\<exists>l s'. Wait m T 0 0 ist kWaiting s = Some (Blocked (OnWaitCond m None l) s')
      \<and> state (threads s' T) = kWaiting"
proof -
  from assms AppendToWaitSet_chain [of s m ws T] obtain s1 where
    a: "AppendToWaitSet m T s = Some s1" by blast
  with assms have "\<not> interrupted (threads s1 T)" by (simp add: AppendToWaitSet_interrupted)
  with a assms(1) show ?thesis
    by (simp add: Wait_def Let_def upd_monitor_def upd_thread_def)
qed

text \<open>
  C3: \<open>Wait\<close> on an object whose fat monitor \<open>m\<close> is owned by the caller \<open>T\<close>.
  With \<open>ms < 0\<close>, \<open>ns < 0\<close> or \<open>ns > 999999\<close> the call returns with
  \<open>IllegalArgumentException\<close> pending on \<open>T\<close>; lock words, monitors (owner, recursion
  count, head of the wait set) and every \<open>wait_next_\<close> link are unchanged, and \<open>T\<close>
  still owns the object. A \<open>kTimedWaiting\<close> wait with \<open>ms = 0\<close> and \<open>ns = 0\<close>
  does exactly what the \<open>kWaiting\<close> wait does; in particular, when \<open>T\<close> is not yet in
  the wait set and is not interrupted, it parks in the untimed \<open>wait_cond_->Wait\<close> in state
  \<open>kWaiting\<close>.
\<close>

theorem Wait_argument_checks:
  "lock_word s obj = FatLocked m \<and> owner (monitors s m) = Some T \<longrightarrow>
     ((sint ms < 0 \<or> sint ns < 0 \<or> 999999 < sint ns) \<longrightarrow>
        (\<exists>s'. Wait_Object T obj ms ns ist why s = Some (Returned () s')
              \<and> pending s' T = Some IllegalArgumentException
              \<and> lock_word s' = lock_word s \<and> monitors s' = monitors s
              \<and> (\<forall>t. wait_next (threads s' t) = wait_next (threads s t))
              \<and> is_owner s' T obj))
     \<and> Wait_Object T obj 0 0 ist kTimedWaiting s = Wait_Object T obj 0 0 ist kWaiting s
     \<and> (wait_chain (threads s) (wait_set (monitors s m)) ws
          \<and> T \<notin> set ws \<and> wait_next (threads s T) = None \<and> \<not> interrupted (threads s T) \<longrightarrow>
        (\<exists>l s'. Wait_Object T obj 0 0 ist kTimedWaiting s = Some (Blocked (OnWaitCond m None l) s')
              \<and> state (threads s' T) = kWaiting))"
proof (intro impI)
  assume h: "lock_word s obj = FatLocked m \<and> owner (monitors s m) = Some T"
  then have obj: "\<And>ms ns why. Wait_Object T obj ms ns ist why s = Wait m T ms ns ist why s"
    by (simp add: Wait_Object_def)
  have bad: "(sint ms < 0 \<or> sint ns < 0 \<or> 999999 < sint ns) \<longrightarrow>
        (\<exists>s'. Wait_Object T obj ms ns ist why s = Some (Returned () s')
              \<and> pending s' T = Some IllegalArgumentException
              \<and> lock_word s' = lock_word s \<and> monitors s' = monitors s
              \<and> (\<forall>t. wait_next (threads s' t) = wait_next (threads s t))
              \<and> is_owner s' T obj)"
    using h by (simp add: obj Wait_bad_arguments throw_defs pending_def is_owner_def)
  have zero: "Wait_Object T obj 0 0 ist kTimedWaiting s = Wait_Object T obj 0 0 ist kWaiting s"
    by (simp add: obj Wait_zero_timeout)
  have parks: "wait_chain (threads s) (wait_set (monitors s m)) ws
          \<and> T \<notin> set ws \<and> wait_next (threads s T) = None \<and> \<not> interrupted (threads s T) \<longrightarrow>
        (\<exists>l s'. Wait_Object T obj 0 0 ist kTimedWaiting s = Some (Blocked (OnWaitCond m None l) s')
              \<and> state (threads s' T) = kWaiting)"
    using h Wait_untimed_parks [of s m T ws ist] by (simp add: obj Wait_zero_timeout)
  from bad zero parks show "((sint ms < 0 \<or> sint ns < 0 \<or> 999999 < sint ns) \<longrightarrow>
        (\<exists>s'. Wait_Object T obj ms ns ist why s = Some (Returned () s')
              \<and> pending s' T = Some IllegalArgumentException
              \<and> lock_word s' = lock_word s \<and> monitors s' = monitors s
              \<and> (\<forall>t. wait_next (threads s' t) = wait_next (threads s t))
              \<and> is_owner s' T obj))
     \<and> Wait_Object T obj 0 0 ist kTimedWaiting s = Wait_Object T obj 0 0 ist kWaiting s
     \<and> (wait_chain (threads s) (wait_set (monitors s m)) ws
          \<and> T \<notin> set ws \<and> wait_next (threads s T) = None \<and> \<not> interrupted (threads s T) \<longrightarrow>
        (\<exists>l s'. Wait_Object T obj 0 0 ist kTimedWaiting s = Some (Blocked (OnWaitCond m None l) s')
              \<and> state (threads s' T) = kWaiting))"
    by blast
qed

theorem Wait_argument_checks_witness:
  "lock_word owned_example 7 = FatLocked 0 \<and> owner (monitors owned_example 0) = Some 0
   \<and> sint (- 1 :: 64 word) < 0
   \<and> (\<exists>s'. Wait_Object 0 7 (- 1) 0 True kTimedWaiting owned_example = Some (Returned () s')
         \<and> pending s' 0 = Some IllegalArgumentException
         \<and> lock_word s' 7 = FatLocked 0
         \<and> owner (monitors s' 0) = Some 0 \<and> lock_count (monitors s' 0) = 2
         \<and> wait_set (monitors s' 0) = None)
   \<and> 999999 < sint (1000000 :: 32 word)
   \<and> (\<exists>s'. Wait_Object 0 7 5 1000000 True kTimedWaiting owned_example = Some (Returned () s')
         \<and> pending s' 0 = Some IllegalArgumentException)
   \<and> wait_chain (threads owned_example) (wait_set (monitors owned_example 0)) []
   \<and> wait_next (threads owned_example 0) = None \<and> \<not> interrupted (threads owned_example 0)
   \<and> (\<exists>l s'. Wait_Object 0 7 0 0 True kTimedWaiting owned_example
                 = Some (Blocked (OnWaitCond 0 None l) s')
         \<and> state (threads s' 0) = kWaiting)"
proof -
  let ?s = owned_example
  have v: "lock_word ?s 7 = FatLocked 0" "owner (monitors ?s 0) = Some 0"
    "lock_count (monitors ?s 0) = 2" "wait_set (monitors ?s 0) = None"
    "wait_next (threads ?s 0) = None" "\<not> interrupted (threads ?s 0)"
    by (simp_all add: owned_example_def example_runtime_def new_Thread_def no_Monitor_def)
  have h: "lock_word ?s 7 = FatLocked 0 \<and> owner (monitors ?s 0) = Some 0"
    by (simp add: v)
  have a1: "sint (- 1 :: 64 word) < 0 \<or> sint (0 :: 32 word) < 0 \<or> 999999 < sint (0 :: 32 word)"
    by simp
  have a2: "sint (5 :: 64 word) < 0 \<or> sint (1000000 :: 32 word) < 0
      \<or> 999999 < sint (1000000 :: 32 word)"
    by simp
  have a3: "wait_chain (threads ?s) (wait_set (monitors ?s 0)) []
          \<and> 0 \<notin> set [] \<and> wait_next (threads ?s 0) = None \<and> \<not> interrupted (threads ?s 0)"
    by (simp add: v)
  from Wait_argument_checks [of ?s 7 0 0 "- 1" 0 True kTimedWaiting "[]"] h a1
  have c1: "\<exists>s'. Wait_Object 0 7 (- 1) 0 True kTimedWaiting ?s = Some (Returned () s')
              \<and> pending s' 0 = Some IllegalArgumentException
              \<and> lock_word s' = lock_word ?s \<and> monitors s' = monitors ?s
              \<and> (\<forall>t. wait_next (threads s' t) = wait_next (threads ?s t))
              \<and> is_owner s' 0 7"
    by blast
  from Wait_argument_checks [of ?s 7 0 0 5 1000000 True kTimedWaiting "[]"] h a2
  have c2: "\<exists>s'. Wait_Object 0 7 5 1000000 True kTimedWaiting ?s = Some (Returned () s')
              \<and> pending s' 0 = Some IllegalArgumentException
              \<and> lock_word s' = lock_word ?s \<and> monitors s' = monitors ?s
              \<and> (\<forall>t. wait_next (threads s' t) = wait_next (threads ?s t))
              \<and> is_owner s' 0 7"
    by blast
  from Wait_argument_checks [of ?s 7 0 0 0 0 True kTimedWaiting "[]"] h a3
  have c3: "\<exists>l s'. Wait_Object 0 7 0 0 True kTimedWaiting ?s = Some (Blocked (OnWaitCond 0 None l) s')
              \<and> state (threads s' 0) = kWaiting"
    by blast
  from c1 have c1': "\<exists>s'. Wait_Object 0 7 (- 1) 0 True kTimedWaiting ?s = Some (Returned () s')
         \<and> pending s' 0 = Some IllegalArgumentException
         \<and> lock_word s' 7 = FatLocked 0
         \<and> owner (monitors s' 0) = Some 0 \<and> lock_count (monitors s' 0) = 2
         \<and> wait_set (monitors s' 0) = None"
    by (auto simp: v)
  from c2 have c2': "\<exists>s'. Wait_Object 0 7 5 1000000 True kTimedWaiting ?s = Some (Returned () s')
         \<and> pending s' 0 = Some IllegalArgumentException"
    by blast
  from a3 have a3': "wait_chain (threads ?s) (wait_set (monitors ?s 0)) []
      \<and> wait_next (threads ?s 0) = None \<and> \<not> interrupted (threads ?s 0)" by simp
  have a4: "sint (- 1 :: 64 word) < 0" "999999 < sint (1000000 :: 32 word)" by simp_all
  from h a4 c1' c2' a3' c3 show ?thesis by blast
qed

section \<open>Calls by a thread that does not own the lock, and diagnostics\<close>

text \<open>
  C4: a thread \<open>T\<close> that does not own the lock of \<open>obj\<close> calls \<open>MonitorExit\<close>,
  \<open>Wait\<close>, notify or notifyAll. Each call returns (\<open>MonitorExit\<close> returns false) with
  \<open>IllegalMonitorStateException\<close> pending on \<open>T\<close>; every lock word, every field of every
  monitor and every \<open>wait_next_\<close> link is what it was before the call.
\<close>

theorem non_owner_calls:
  "\<not> is_owner s T obj \<longrightarrow>
     (fst (MonitorExit T obj s) = False
      \<and> pending (snd (MonitorExit T obj s)) T = Some IllegalMonitorStateException
      \<and> lock_word (snd (MonitorExit T obj s)) = lock_word s
      \<and> monitors (snd (MonitorExit T obj s)) = monitors s
      \<and> (\<forall>t. wait_next (threads (snd (MonitorExit T obj s)) t) = wait_next (threads s t)))
   \<and> (\<exists>s'. Wait_Object T obj ms ns ist why s = Some (Returned () s')
        \<and> pending s' T = Some IllegalMonitorStateException
        \<and> lock_word s' = lock_word s \<and> monitors s' = monitors s
        \<and> (\<forall>t. wait_next (threads s' t) = wait_next (threads s t)))
   \<and> (\<exists>s'. InflateAndNotify T obj False s = Some s'
        \<and> pending s' T = Some IllegalMonitorStateException
        \<and> lock_word s' = lock_word s \<and> monitors s' = monitors s
        \<and> (\<forall>t. wait_next (threads s' t) = wait_next (threads s t)))
   \<and> (\<exists>s'. InflateAndNotify T obj True s = Some s'
        \<and> pending s' T = Some IllegalMonitorStateException
        \<and> lock_word s' = lock_word s \<and> monitors s' = monitors s
        \<and> (\<forall>t. wait_next (threads s' t) = wait_next (threads s t)))"
proof (intro impI)
  assume h: "\<not> is_owner s T obj"
  have exit_: "fst (MonitorExit T obj s) = False
      \<and> pending (snd (MonitorExit T obj s)) T = Some IllegalMonitorStateException
      \<and> lock_word (snd (MonitorExit T obj s)) = lock_word s
      \<and> monitors (snd (MonitorExit T obj s)) = monitors s
      \<and> (\<forall>t. wait_next (threads (snd (MonitorExit T obj s)) t) = wait_next (threads s t))"
    using h
    by (cases "lock_word s obj")
      (auto simp: is_owner_def MonitorExit_def Unlock_def Let_def FailedUnlock_def throw_defs
        pending_def)
  have wait_: "\<exists>s'. Wait_Object T obj ms ns ist why s = Some (Returned () s')
        \<and> pending s' T = Some IllegalMonitorStateException
        \<and> lock_word s' = lock_word s \<and> monitors s' = monitors s
        \<and> (\<forall>t. wait_next (threads s' t) = wait_next (threads s t))"
    using h
    by (cases "lock_word s obj")
      (auto simp: is_owner_def Wait_Object_def Wait_def throw_defs pending_def)
  have notify_: "\<And>b. \<exists>s'. InflateAndNotify T obj b s = Some s'
        \<and> pending s' T = Some IllegalMonitorStateException
        \<and> lock_word s' = lock_word s \<and> monitors s' = monitors s
        \<and> (\<forall>t. wait_next (threads s' t) = wait_next (threads s t))"
    using h
    by (cases "lock_word s obj")
      (auto simp: is_owner_def InflateAndNotify_def Notify_def NotifyAll_def throw_defs pending_def)
  from exit_ wait_ notify_ [of False] notify_ [of True]
  show "(fst (MonitorExit T obj s) = False
      \<and> pending (snd (MonitorExit T obj s)) T = Some IllegalMonitorStateException
      \<and> lock_word (snd (MonitorExit T obj s)) = lock_word s
      \<and> monitors (snd (MonitorExit T obj s)) = monitors s
      \<and> (\<forall>t. wait_next (threads (snd (MonitorExit T obj s)) t) = wait_next (threads s t)))
   \<and> (\<exists>s'. Wait_Object T obj ms ns ist why s = Some (Returned () s')
        \<and> pending s' T = Some IllegalMonitorStateException
        \<and> lock_word s' = lock_word s \<and> monitors s' = monitors s
        \<and> (\<forall>t. wait_next (threads s' t) = wait_next (threads s t)))
   \<and> (\<exists>s'. InflateAndNotify T obj False s = Some s'
        \<and> pending s' T = Some IllegalMonitorStateException
        \<and> lock_word s' = lock_word s \<and> monitors s' = monitors s
        \<and> (\<forall>t. wait_next (threads s' t) = wait_next (threads s t)))
   \<and> (\<exists>s'. InflateAndNotify T obj True s = Some s'
        \<and> pending s' T = Some IllegalMonitorStateException
        \<and> lock_word s' = lock_word s \<and> monitors s' = monitors s
        \<and> (\<forall>t. wait_next (threads s' t) = wait_next (threads s t)))"
    by blast
qed

theorem non_owner_calls_witness:
  "\<not> is_owner owned_example 2 7
   \<and> fst (MonitorExit 2 7 owned_example) = False
   \<and> pending (snd (MonitorExit 2 7 owned_example)) 2 = Some IllegalMonitorStateException
   \<and> lock_word (snd (MonitorExit 2 7 owned_example)) 7 = FatLocked 0
   \<and> owner (monitors (snd (MonitorExit 2 7 owned_example)) 0) = Some 0
   \<and> lock_count (monitors (snd (MonitorExit 2 7 owned_example)) 0) = 2
   \<and> (\<exists>s'. Wait_Object 2 7 0 0 True kWaiting owned_example = Some (Returned () s')
        \<and> pending s' 2 = Some IllegalMonitorStateException \<and> lock_word s' 7 = FatLocked 0)
   \<and> (\<exists>s'. InflateAndNotify 2 7 False owned_example = Some s'
        \<and> pending s' 2 = Some IllegalMonitorStateException \<and> lock_word s' 7 = FatLocked 0)
   \<and> (\<exists>s'. InflateAndNotify 2 7 True owned_example = Some s'
        \<and> pending s' 2 = Some IllegalMonitorStateException \<and> lock_word s' 7 = FatLocked 0)"
proof -
  let ?s = owned_example
  have v: "lock_word ?s 7 = FatLocked 0" "owner (monitors ?s 0) = Some 0"
    "lock_count (monitors ?s 0) = 2"
    by (simp_all add: owned_example_def example_runtime_def no_Monitor_def)
  then have h: "\<not> is_owner ?s 2 7" by (simp add: is_owner_def)
  from non_owner_calls [of ?s 2 7 0 0 True kWaiting] h
  have c: "(fst (MonitorExit 2 7 ?s) = False
      \<and> pending (snd (MonitorExit 2 7 ?s)) 2 = Some IllegalMonitorStateException
      \<and> lock_word (snd (MonitorExit 2 7 ?s)) = lock_word ?s
      \<and> monitors (snd (MonitorExit 2 7 ?s)) = monitors ?s
      \<and> (\<forall>t. wait_next (threads (snd (MonitorExit 2 7 ?s)) t) = wait_next (threads ?s t)))
   \<and> (\<exists>s'. Wait_Object 2 7 0 0 True kWaiting ?s = Some (Returned () s')
        \<and> pending s' 2 = Some IllegalMonitorStateException
        \<and> lock_word s' = lock_word ?s \<and> monitors s' = monitors ?s
        \<and> (\<forall>t. wait_next (threads s' t) = wait_next (threads ?s t)))
   \<and> (\<exists>s'. InflateAndNotify 2 7 False ?s = Some s'
        \<and> pending s' 2 = Some IllegalMonitorStateException
        \<and> lock_word s' = lock_word ?s \<and> monitors s' = monitors ?s
        \<and> (\<forall>t. wait_next (threads s' t) = wait_next (threads ?s t)))
   \<and> (\<exists>s'. InflateAndNotify 2 7 True ?s = Some s'
        \<and> pending s' 2 = Some IllegalMonitorStateException
        \<and> lock_word s' = lock_word ?s \<and> monitors s' = monitors ?s
        \<and> (\<forall>t. wait_next (threads s' t) = wait_next (threads ?s t)))"
    by blast
  with h show ?thesis by (auto simp: v)
qed

text \<open>
  C9: notify and notifyAll by the thread that holds the thin lock of \<open>obj\<close> return the
  runtime they were given: nothing is raised, no monitor is allocated or installed, the lock
  word is the same.
\<close>

theorem notify_by_thin_owner:
  "lock_word s obj = ThinLocked (GetThreadId s T) n \<longrightarrow>
     InflateAndNotify T obj False s = Some s \<and> InflateAndNotify T obj True s = Some s"
  by (simp add: InflateAndNotify_def)

theorem notify_by_thin_owner_witness:
  "lock_word (SetLockWord 7 (ThinLocked 1 3) (example_runtime 4095 0)) 7
     = ThinLocked (GetThreadId (SetLockWord 7 (ThinLocked 1 3) (example_runtime 4095 0)) 0) 3
   \<and> InflateAndNotify 0 7 False (SetLockWord 7 (ThinLocked 1 3) (example_runtime 4095 0))
     = Some (SetLockWord 7 (ThinLocked 1 3) (example_runtime 4095 0))
   \<and> InflateAndNotify 0 7 True (SetLockWord 7 (ThinLocked 1 3) (example_runtime 4095 0))
     = Some (SetLockWord 7 (ThinLocked 1 3) (example_runtime 4095 0))"
proof -
  let ?s = "SetLockWord 7 (ThinLocked 1 3) (example_runtime 4095 0)"
  have h: "lock_word ?s 7 = ThinLocked (GetThreadId ?s 0) 3"
    by (simp add: SetLockWord_def GetThreadId_def example_runtime_def new_Thread_def)
  with notify_by_thin_owner [of ?s 7 0 3] show ?thesis by blast
qed

text \<open>
  C10: for an object whose lock word is fat on a monitor without owner,
  \<open>GetLockOwnerThreadId\<close> returns \<open>kInvalidThreadId\<close>, which is also what it returns for an
  unlocked object.
\<close>

theorem lock_owner_of_unowned_monitor:
  "(lock_word s obj = FatLocked m \<and> owner (monitors s m) = None \<longrightarrow>
      GetLockOwnerThreadId obj s = kInvalidThreadId)
   \<and> (lock_word s' obj' = Unlocked \<longrightarrow> GetLockOwnerThreadId obj' s' = kInvalidThreadId)"
  by (simp add: GetLockOwnerThreadId_def GetOwnerThreadId_def)

theorem lock_owner_of_unowned_monitor_witness:
  "lock_word released_example 7 = FatLocked 0 \<and> owner (monitors released_example 0) = None
   \<and> GetLockOwnerThreadId 7 released_example = kInvalidThreadId
   \<and> lock_word (example_runtime 0 0) 7 = Unlocked
   \<and> GetLockOwnerThreadId 7 (example_runtime 0 0) = kInvalidThreadId"
proof -
  have h1: "lock_word released_example 7 = FatLocked 0 \<and> owner (monitors released_example 0) = None"
    by code_simp
  have h2: "lock_word (example_runtime 0 0) 7 = Unlocked"
    by (simp add: example_runtime_def)
  from lock_owner_of_unowned_monitor [of released_example 7 0 "example_runtime 0 0" 7] h1 h2
  show ?thesis by blast
qed

section \<open>Snapshots\<close>

lemma collect_waiters_chain:
  "wait_chain th p ws \<Longrightarrow> collect_waiters th p acc = Some (acc @ ws)"
proof (induction ws arbitrary: p acc)
  case Nil
  then show ?case by (simp add: collect_waiters.simps [of th None])
next
  case (Cons t ts)
  then have "collect_waiters th (wait_next (th t)) (acc @ [t]) = Some ((acc @ [t]) @ ts)"
    by simp
  with Cons.prems show ?case by (simp add: collect_waiters.simps [of th "Some t"])
qed

lemma word_inc_uint': "(n::uint32) + 1 \<noteq> 0 \<Longrightarrow> uint (1 + n) = uint n + 1"
  by uint_arith

lemma MonitorInfo_of_held:
  "(lock_word s obj = Unlocked \<longrightarrow>
      MonitorInfo_of obj s = Some \<lparr>info_owner = None, entry_count = 0, waiters = []\<rparr>)
   \<and> (lock_word s obj = ThinLocked i n \<and> n + 1 \<noteq> 0 \<longrightarrow>
      MonitorInfo_of obj s =
        Some \<lparr>info_owner = FindThreadByThreadId s i, entry_count = uint n + 1, waiters = []\<rparr>)
   \<and> (lock_word s obj = FatLocked m \<and> wait_chain (threads s) (wait_set (monitors s m)) ws
       \<and> lock_count (monitors s m) + 1 \<noteq> 0 \<longrightarrow>
      MonitorInfo_of obj s =
        Some \<lparr>info_owner = owner (monitors s m),
              entry_count = uint (lock_count (monitors s m)) + 1, waiters = ws\<rparr>)"
  by (auto simp: MonitorInfo_of_def collect_waiters_chain word_inc_uint')

text \<open>
  C6: the snapshot of an object whose monitor has been released. After two \<open>MonitorEnter\<close>
  (the second inflates the lock) and two \<open>MonitorExit\<close> the lock word is fat, the monitor has
  no owner and recursion count 0, and the snapshot has no owner; its entry count is 1.
\<close>

theorem MonitorInfo_of_released_monitor:
  "lock_word released_example 7 = FatLocked 0
   \<and> owner (monitors released_example 0) = None
   \<and> lock_count (monitors released_example 0) = 0
   \<and> MonitorInfo_of 7 released_example
       = Some \<lparr>info_owner = None, entry_count = 1, waiters = []\<rparr>"
  by code_simp


section \<open>Snapshot after repeated acquisition\<close>

lemma enter_times_thin:
  assumes "lock_word s obj = ThinLocked (GetThreadId s T) c"
    and "unat c + j \<le> unat (kThinLockMaxCount s)"
  shows "enter_times j T obj s =
    Some (Returned () (s\<lparr>lock_word := (lock_word s)(obj := ThinLocked (GetThreadId s T) (c + of_nat j))\<rparr>))"
  using assms
proof (induction j arbitrary: s c)
  case 0
  then have "(lock_word s)(obj := ThinLocked (GetThreadId s T) c) = lock_word s"
    by (metis fun_upd_triv)
  then show ?case by simp
next
  case (Suc j)
  let ?i = "GetThreadId s T"
  let ?s1 = "SetLockWord obj (ThinLocked ?i (c + 1)) s"
  from Suc.prems have lt: "c < kThinLockMaxCount s" by (simp add: word_less_nat_alt)
  with Suc.prems have e: "MonitorEnter T obj s = Some (Returned () ?s1)"
    by (simp add: MonitorEnter_thin_below_max)
  have i1: "GetThreadId ?s1 T = ?i" by (simp add: GetThreadId_def SetLockWord_def)
  have w1: "lock_word ?s1 obj = ThinLocked (GetThreadId ?s1 T) (c + 1)"
    by (simp add: i1) (simp add: SetLockWord_def)
  from lt have "unat (c + 1) = unat c + 1" by (rule word_inc_unat)
  with Suc.prems have b1: "unat (c + 1) + j \<le> unat (kThinLockMaxCount ?s1)"
    by (simp add: SetLockWord_def)
  have eq: "?s1\<lparr>lock_word := (lock_word ?s1)(obj := ThinLocked ?i (c + 1 + of_nat j))\<rparr>
      = s\<lparr>lock_word := (lock_word s)(obj := ThinLocked ?i (c + of_nat (Suc j)))\<rparr>"
    by (simp add: SetLockWord_def add.assoc)
  from Suc.IH [OF w1 b1] have r: "enter_times j T obj ?s1 =
      Some (Returned () (s\<lparr>lock_word := (lock_word s)(obj := ThinLocked ?i (c + of_nat (Suc j)))\<rparr>))"
    by (simp only: i1 eq)
  have "enter_times (Suc j) T obj s = enter_times j T obj ?s1"
    by (simp add: e)
  with r show ?case by (simp only:)
qed

lemma of_nat_pred_uint:
  assumes "1 \<le> k" and "k - 1 \<le> unat (mx :: uint32)" and "mx + 1 \<noteq> 0"
  shows "uint (1 + (of_nat (k - 1) :: uint32)) = int k"
proof -
  from assms(3) have "mx \<noteq> - 1" by auto
  then have "unat mx \<noteq> unat (- 1 :: uint32)" by (simp add: word_unat_eq_iff)
  moreover have "unat mx < 2 ^ 32" using unsigned_less [of mx, where ?'a = nat] by simp
  moreover have "unat (- 1 :: uint32) = 2 ^ 32 - 1"
    by (simp add: unsigned_minus_1_eq_mask mask_eq_exp_minus_1)
  ultimately have "unat mx < 2 ^ 32 - 1" by simp
  with assms have k: "k < 2 ^ 32" by simp
  from assms(1) have "1 + (of_nat (k - 1) :: uint32) = of_nat k"
    by (metis of_nat_Suc add.commute Suc_eq_plus1 le_add_diff_inverse)
  moreover from k have "uint (of_nat k :: uint32) = int k"
    by (simp add: uint_nat unsigned_of_nat take_bit_nat_eq_self)
  ultimately show ?thesis by simp
qed

text \<open>
  C8: on an object that is unlocked, \<open>k \<ge> 1\<close> calls of \<open>MonitorEnter\<close> by thread \<open>T\<close>, with
  \<open>k - 1\<close> not above the largest thin count (which is not the largest 32-bit value, the count
  being a field of the lock word), all return, and the snapshot taken then has owner \<open>T\<close>, entry
  count \<open>k\<close> and no waiters. The snapshot looks the owner up by its thread id, so \<open>T\<close> is
  taken to be the registered thread with its id.
\<close>

theorem snapshot_after_enters:
  "lock_word s obj = Unlocked \<and> 1 \<le> k \<and> k - 1 \<le> unat (kThinLockMaxCount s)
   \<and> kThinLockMaxCount s + 1 \<noteq> 0
   \<and> FindThreadByThreadId s (GetThreadId s T) = Some T \<longrightarrow>
   (\<exists>s'. enter_times k T obj s = Some (Returned () s')
      \<and> MonitorInfo_of obj s' = Some \<lparr>info_owner = Some T, entry_count = int k, waiters = []\<rparr>)"
proof (intro impI)
  assume h: "lock_word s obj = Unlocked \<and> 1 \<le> k \<and> k - 1 \<le> unat (kThinLockMaxCount s)
   \<and> kThinLockMaxCount s + 1 \<noteq> 0
   \<and> FindThreadByThreadId s (GetThreadId s T) = Some T"
  let ?i = "GetThreadId s T"
  let ?s1 = "SetLockWord obj (ThinLocked ?i 0) s"
  let ?s' = "?s1\<lparr>lock_word := (lock_word ?s1)(obj := ThinLocked ?i (0 + of_nat (k - 1)))\<rparr>"
  from h obtain j where k: "k = Suc j" by (cases k) auto
  from h have e: "MonitorEnter T obj s = Some (Returned () ?s1)"
    by (simp add: MonitorEnter_Unlocked)
  have i1: "GetThreadId ?s1 T = ?i" by (simp add: GetThreadId_def SetLockWord_def)
  have w1: "lock_word ?s1 obj = ThinLocked (GetThreadId ?s1 T) 0"
    by (simp add: i1) (simp add: SetLockWord_def)
  from h k have b1: "unat (0 :: uint32) + j \<le> unat (kThinLockMaxCount ?s1)"
    by (simp add: SetLockWord_def)
  from enter_times_thin [OF w1 b1] e k have r: "enter_times k T obj s = Some (Returned () ?s')"
    by (simp add: i1)
  from h have c: "uint (1 + (of_nat (k - 1) :: uint32)) = int k"
    by (intro of_nat_pred_uint [where mx = "kThinLockMaxCount s"]) simp_all
  from h have f: "FindThreadByThreadId ?s' ?i = Some T"
    by (simp add: FindThreadByThreadId_def SetLockWord_def)
  have "MonitorInfo_of obj ?s' = Some \<lparr>info_owner = Some T, entry_count = int k, waiters = []\<rparr>"
    using c f by (simp add: MonitorInfo_of_def)
  with r show "\<exists>s'. enter_times k T obj s = Some (Returned () s')
      \<and> MonitorInfo_of obj s' = Some \<lparr>info_owner = Some T, entry_count = int k, waiters = []\<rparr>"
    by blast
qed

theorem snapshot_after_enters_witness:
  "lock_word (example_runtime 4095 0) 7 = Unlocked \<and> (1 :: nat) \<le> 3
   \<and> (3 :: nat) - 1 \<le> unat (kThinLockMaxCount (example_runtime 4095 0))
   \<and> kThinLockMaxCount (example_runtime 4095 0) + 1 \<noteq> 0
   \<and> FindThreadByThreadId (example_runtime 4095 0) (GetThreadId (example_runtime 4095 0) 0) = Some 0
   \<and> (\<exists>s'. enter_times 3 0 7 (example_runtime 4095 0) = Some (Returned () s')
      \<and> MonitorInfo_of 7 s' = Some \<lparr>info_owner = Some 0, entry_count = 3, waiters = []\<rparr>)"
proof -
  let ?s = "example_runtime 4095 0"
  have h: "lock_word ?s 7 = Unlocked \<and> (1 :: nat) \<le> 3
   \<and> (3 :: nat) - 1 \<le> unat (kThinLockMaxCount ?s)
   \<and> kThinLockMaxCount ?s + 1 \<noteq> 0
   \<and> FindThreadByThreadId ?s (GetThreadId ?s 0) = Some 0"
    by (simp add: example_runtime_def FindThreadByThreadId_def GetThreadId_def new_Thread_def)
  from snapshot_after_enters [of ?s 7 3 0] h
  have "\<exists>s'. enter_times 3 0 7 ?s = Some (Returned () s')
      \<and> MonitorInfo_of 7 s' = Some \<lparr>info_owner = Some 0, entry_count = int 3, waiters = []\<rparr>"
    by blast
  with h show ?thesis by simp
qed

section \<open>Contention sampling in Monitor::Lock\<close>

lemma Lock_contended:
  assumes "owner (monitors s m) = Some other" and "other \<noteq> self"
  shows "Lock m self s =
    Blocked (OnMonitorContenders m
        \<lparr>log_contention = (lock_profiling_threshold s \<noteq> 0),
         wait_start_ms = (if lock_profiling_threshold s \<noteq> 0 then 0 else milli_time s),
         owners_method = locking_method (monitors s m),
         owners_dex_pc = locking_dex_pc (monitors s m)\<rparr>)
      (upd_thread self (\<lambda>t. t\<lparr>state := kBlocked\<rparr>) s)"
  using assms by (simp add: Lock_def Let_def)

lemma contention_wait_ms_profiling:
  "wait_start_ms l = 0 \<Longrightarrow> contention_wait_ms l s = milli_time s"
  by (simp add: contention_wait_ms_def)

text \<open>
  C7: a contended \<open>Monitor::Lock\<close> with lock profiling enabled. Thread 0 blocks at clock
  1000000 ms; the start time it keeps is 0, not the clock. Woken 5 ms later, it computes a wait
  of 1000005 ms and a sample percentage of 100, and logs the event although \<open>rand() % 100\<close>
  is 99.
\<close>

theorem Lock_profiling_wait_ms:
  "lock_profiling_threshold contended_example = 100
   \<and> milli_time contended_example = 1000000
   \<and> Lock 0 0 contended_example =
       Blocked (OnMonitorContenders 0
           \<lparr>log_contention = True, wait_start_ms = 0, owners_method = None, owners_dex_pc = 0\<rparr>)
         (upd_thread 0 (\<lambda>t. t\<lparr>state := kBlocked\<rparr>) contended_example)
   \<and> milli_time woken_example = 1000005
   \<and> map_option contention_log (returned_state (Lock_woken 0 0
           \<lparr>log_contention = True, wait_start_ms = 0, owners_method = None, owners_dex_pc = 0\<rparr>
           99 woken_example))
       = Some [\<lparr>ce_thread = 0, ce_wait_ms = 1000005, ce_sample_percent = 100,
                ce_owners_method = None, ce_owners_dex_pc = 0\<rparr>]"
proof -
  have v: "lock_profiling_threshold contended_example = 100"
    "milli_time contended_example = 1000000"
    "owner (monitors contended_example 0) = Some 1"
    "locking_method (monitors contended_example 0) = None"
    "locking_dex_pc (monitors contended_example 0) = 0"
    by (simp_all add: contended_example_def example_runtime_def no_Monitor_def)
  have l: "Lock 0 0 contended_example =
       Blocked (OnMonitorContenders 0
           \<lparr>log_contention = True, wait_start_ms = 0, owners_method = None, owners_dex_pc = 0\<rparr>)
         (upd_thread 0 (\<lambda>t. t\<lparr>state := kBlocked\<rparr>) contended_example)"
    using Lock_contended [of contended_example 0 1 0] by (simp add: v)
  have w: "milli_time woken_example = 1000005
      \<and> lock_profiling_threshold woken_example = 100
      \<and> owner (monitors woken_example 0) = None
      \<and> lock_count (monitors woken_example 0) = 0
      \<and> contention_log woken_example = []"
    by (simp add: woken_example_def Unlock_def upd_thread_def upd_monitor_def Let_def
        contended_example_def example_runtime_def no_Monitor_def)
  have p: "contention_sample_percent 1000005 100 = 100"
    by (simp add: contention_sample_percent_def)
  have "map_option contention_log (returned_state (Lock_woken 0 0
           \<lparr>log_contention = True, wait_start_ms = 0, owners_method = None, owners_dex_pc = 0\<rparr>
           99 woken_example))
       = Some [\<lparr>ce_thread = 0, ce_wait_ms = 1000005, ce_sample_percent = 100,
                ce_owners_method = None, ce_owners_dex_pc = 0\<rparr>]"
    using w by (simp add: Lock_woken_def Let_def contention_wait_ms_def p Lock_def
        upd_thread_def upd_monitor_def returned_state_def)
  with v l w show ?thesis by simp
qed

end
